theory Spec2Isabelle
  imports Complex_Main "HOL-Library.Word"
begin

section \<open>PulseX Medical API: the upload handlers of backend/main.py\<close>

text \<open>
  The module \<^verbatim>\<open>backend/main.py\<close> is a FastAPI application with two upload
  handlers, a health endpoint and a block of module-level initialisation. What the
  handlers do beyond returning a value (writing and deleting files, calling the X-ray
  service, raising) is explicit here: a handler is a function from the application
  context, the nondeterministic inputs of one request, the state before the request and
  the uploaded file to an outcome and the state after the request.
\<close>

subsection \<open>Data\<close>

type_synonym bytes = "8 word list"

text \<open>A path is the list of its components below the root; \<open>[]\<close> is the root.\<close>

type_synonym path = "string list"

datatype node = Dir | File bytes

type_synonym filesystem = "path \<Rightarrow> node option"

text \<open>
  Instances of Python's \<^verbatim>\<open>Exception\<close>: the class and the text \<^verbatim>\<open>str(e)\<close>.
  \<open>OtherException\<close> stands for every class the handlers do not distinguish (what the
  stream, the operating system or the X-ray service may raise).
\<close>

datatype exc_class =
    AttributeError | TypeError
  | FileNotFoundError | FileExistsError | IsADirectoryError | NotADirectoryError
  | OtherException string

datatype exn = Exc exc_class string

fun str_exc :: "exn \<Rightarrow> string" where
  "str_exc (Exc c m) = m"

fun exc_class_of :: "exn \<Rightarrow> exc_class" where
  "exc_class_of (Exc c m) = c"

text \<open>
  Instances of the other subclasses of \<^verbatim>\<open>BaseException\<close> (\<^verbatim>\<open>SystemExit\<close>,
  \<^verbatim>\<open>KeyboardInterrupt\<close>, \<^verbatim>\<open>GeneratorExit\<close>), which \<^verbatim>\<open>except Exception\<close>
  does not catch: the name of the class and the text. What a call of foreign code may
  raise is one or the other.
\<close>

datatype base_exn = BaseExc string string

datatype raised = Exception exn | BaseException base_exn

text \<open>\<^verbatim>\<open>datetime.now()\<close>: a naive local date and time.\<close>

record datetime =
  year :: nat
  month :: nat
  day :: nat
  hour :: nat
  minute :: nat
  second :: nat
  microsecond :: nat

text \<open>
  The values the handlers return: dictionaries of strings, booleans, numbers and the
  result of the X-ray service, which the application passes through uninterpreted
  (type \<open>'r\<close>).
\<close>

datatype 'r json =
    JBool bool
  | JStr string
  | JNum rat
  | JList "'r json list"
  | JResult 'r
  | JObj "(string \<times> 'r json) list"

text \<open>
  How a handler ends: it returns a dictionary (FastAPI answers 200 with it), it raises
  \<^verbatim>\<open>HTTPException(status_code, detail)\<close> (FastAPI answers with that status and the
  detail), or another exception leaves the handler uncaught: an \<^verbatim>\<open>Exception\<close>
  raised outside the \<^verbatim>\<open>try\<close> or inside the \<^verbatim>\<open>except\<close> clause, or an exception
  the \<^verbatim>\<open>except Exception\<close> clause does not catch.
\<close>

datatype 'r outcome =
    Return "'r json"
  | HTTPException nat string
  | Unhandled exn
  | UnhandledBase base_exn

text \<open>
  The uploaded file, Starlette's \<^verbatim>\<open>UploadFile\<close>: the declared filename and
  content type (each may be \<^verbatim>\<open>None\<close>), the content of the spooled stream and the
  stream's current offset.
\<close>

record UploadFile =
  filename :: "string option"
  content_type :: "string option"
  content :: bytes
  offset :: nat

text \<open>
  The effects a request has on the outside, in the order they happen: calls on the file
  system and calls of the X-ray service, each with its arguments.
\<close>

datatype event =
    OpenWb path
  | WriteBytes path bytes
  | Exists path
  | Unlink path
  | Stat path
  | Mkdir path
  | AnalyzeCall bytes string

record state =
  fs :: filesystem
  trace :: "event list"

text \<open>
  What one request draws from outside the program: the value of
  \<^verbatim>\<open>str(uuid.uuid4())\<close>, the successive readings of \<^verbatim>\<open>datetime.now()\<close>, and the
  failures of the input stream and of the operating system. \<open>write_raises = Some (n, e)\<close>
  says that the write (or copy) to the opened file raises \<open>e\<close> after \<open>n\<close> bytes have
  reached the file. A handler may call \<^verbatim>\<open>exists\<close> and \<^verbatim>\<open>unlink\<close> more than once,
  so their failures are told by the moment of the call, the number of events the trace
  holds when it is made: \<open>unlink_raises w t = Some e\<close> says that an \<^verbatim>\<open>unlink\<close>
  called at moment \<open>t\<close> raises \<open>e\<close> and removes nothing.
\<close>

record world =
  uuid4 :: string
  now :: "nat \<Rightarrow> datetime"
  seek_raises :: "exn option"
  read_raises :: "exn option"
  open_raises :: "exn option"
  write_raises :: "(nat \<times> exn) option"
  exists_raises :: "nat \<Rightarrow> exn option"
  unlink_raises :: "nat \<Rightarrow> exn option"
  dir_size :: nat

text \<open>
  The X-ray service \<^verbatim>\<open>services.xray_service.XRayService\<close> is not part of the
  module: its method \<^verbatim>\<open>analyze_xray(image_bytes, filename)\<close> is a parameter. It
  is foreign code that runs in the process of the application: what it returns or raises
  may depend on its two arguments and on the file system at the moment of the call (the
  first argument here), and it may raise any \<^verbatim>\<open>BaseException\<close>. It is taken not
  to change the file system.
\<close>

type_synonym 'r service = "filesystem \<Rightarrow> bytes \<Rightarrow> string \<Rightarrow> raised + 'r"

text \<open>
  The module's globals: \<^verbatim>\<open>__file__\<close> (an absolute path) and \<^verbatim>\<open>xray_service\<close>.
\<close>

record 'r app =
  module_file :: path
  xray_service :: "'r service option"

subsection \<open>Strings\<close>

text \<open>\<^verbatim>\<open>s.startswith(p)\<close>\<close>

definition startswith :: "string \<Rightarrow> string \<Rightarrow> bool" where
  "startswith s p = (take (length p) s = p)"

text \<open>\<^verbatim>\<open>s.lower()\<close>, on the ASCII letters.\<close>

definition lower_char :: "char \<Rightarrow> char" where
  "lower_char c =
     (case map_of (zip ''ABCDEFGHIJKLMNOPQRSTUVWXYZ'' ''abcdefghijklmnopqrstuvwxyz'') c of
        Some l \<Rightarrow> l
      | None \<Rightarrow> c)"

definition lower :: "string \<Rightarrow> string" where
  "lower s = map lower_char s"

text \<open>\<^verbatim>\<open>s.split(sep)\<close> for a separator of one character.\<close>

fun split_on :: "char \<Rightarrow> string \<Rightarrow> string list" where
  "split_on sep [] = [[]]"
| "split_on sep (c # cs) =
     (if c = sep then [] # split_on sep cs
      else (case split_on sep cs of
              [] \<Rightarrow> [[c]]
            | r # rs \<Rightarrow> (c # r) # rs))"

text \<open>\<^verbatim>\<open>s.rfind(c)\<close>: the index of the last occurrence, or \<open>-1\<close>.\<close>

definition rfind :: "string \<Rightarrow> char \<Rightarrow> int" where
  "rfind s c =
     (case filter (\<lambda>i. s ! i = c) (rev [0..<length s]) of
        [] \<Rightarrow> - 1
      | i # _ \<Rightarrow> int i)"

text \<open>
  \<^verbatim>\<open>Path(s).name\<close> and \<^verbatim>\<open>Path(s).suffix\<close> of pathlib, for POSIX paths: the
  components are the pieces between slashes, without the empty ones and the single
  dots; the name is the last component; the suffix starts at the last dot of the name,
  unless that dot is the first or the last character of the name.
\<close>

definition path_parts :: "string \<Rightarrow> string list" where
  "path_parts s = filter (\<lambda>c. c \<noteq> [] \<and> c \<noteq> ''.'') (split_on CHR ''/'' s)"

definition path_name :: "string \<Rightarrow> string" where
  "path_name s = (case path_parts s of [] \<Rightarrow> [] | p # ps \<Rightarrow> last (p # ps))"

definition path_suffix :: "string \<Rightarrow> string" where
  "path_suffix s =
     (let name = path_name s; i = rfind name CHR ''.''
      in if 0 < i \<and> i < int (length name) - 1 then drop (nat i) name else [])"

text \<open>Decimal digits, \<^verbatim>\<open>str(n)\<close> and \<^verbatim>\<open>s.zfill(w)\<close>.\<close>

definition digit_char :: "nat \<Rightarrow> char" where
  "digit_char d = ''0123456789'' ! d"

definition isdigit :: "char \<Rightarrow> bool" where
  "isdigit c = (c \<in> set ''0123456789'')"

fun str_nat :: "nat \<Rightarrow> string" where
  "str_nat n = (if n < 10 then [digit_char n] else str_nat (n div 10) @ [digit_char (n mod 10)])"

declare str_nat.simps [simp del]

definition zfill :: "nat \<Rightarrow> string \<Rightarrow> string" where
  "zfill w s = replicate (w - length s) CHR ''0'' @ s"

text \<open>\<^verbatim>\<open>dt.strftime("%Y%m%d_%H%M%S")\<close>\<close>

definition strftime_Ymd_HMS :: "datetime \<Rightarrow> string" where
  "strftime_Ymd_HMS dt =
     zfill 4 (str_nat (year dt)) @ zfill 2 (str_nat (month dt)) @ zfill 2 (str_nat (day dt))
     @ ''_''
     @ zfill 2 (str_nat (hour dt)) @ zfill 2 (str_nat (minute dt)) @ zfill 2 (str_nat (second dt))"

text \<open>\<^verbatim>\<open>dt.isoformat()\<close>: the microseconds are printed only when they are not zero.\<close>

definition isoformat :: "datetime \<Rightarrow> string" where
  "isoformat dt =
     zfill 4 (str_nat (year dt)) @ ''-'' @ zfill 2 (str_nat (month dt)) @ ''-''
     @ zfill 2 (str_nat (day dt)) @ ''T''
     @ zfill 2 (str_nat (hour dt)) @ '':'' @ zfill 2 (str_nat (minute dt)) @ '':''
     @ zfill 2 (str_nat (second dt))
     @ (if microsecond dt = 0 then [] else ''.'' @ zfill 6 (str_nat (microsecond dt)))"

text \<open>
  \<^verbatim>\<open>round(x, 2)\<close>: to the nearest multiple of one hundredth, a tie to the even one.
  The quotient \<^verbatim>\<open>st_size / (1024 * 1024)\<close> is exact in a double for every size
  below \<open>2 ^ 53\<close>, and Python rounds the exact value, so the number is a rational here.
\<close>

definition round_half_even :: "rat \<Rightarrow> int" where
  "round_half_even y =
     (let f = \<lfloor>y\<rfloor>; d = y - of_int f
      in if d < 1 / 2 then f else if 1 / 2 < d then f + 1 else if even f then f else f + 1)"

definition py_round2 :: "rat \<Rightarrow> rat" where
  "py_round2 x = of_int (round_half_even (x * 100)) / 100"

subsection \<open>The file system\<close>

text \<open>
  The file system is a map from paths to nodes; the root is a directory. Each operation
  appends the call to the trace. The operations fail as the operating system says for
  the shape of the tree (a missing parent, a directory where a file is expected);
  \<^verbatim>\<open>open\<close>, the write, \<^verbatim>\<open>exists\<close> and \<^verbatim>\<open>unlink\<close> also fail when the
  request's \<open>world\<close> says so (a permission, a name too long, a busy or read-only
  file system). \<^verbatim>\<open>stat\<close> of the file just written and the \<^verbatim>\<open>mkdir\<close> of the
  module's start have no failure beyond the shape of the tree. What the operating
  system raises is an \<^verbatim>\<open>OSError\<close>, an \<^verbatim>\<open>Exception\<close>; the cancellation of a
  request is not part of the model.
\<close>

definition lookup :: "filesystem \<Rightarrow> path \<Rightarrow> node option" where
  "lookup f p = (if p = [] then Some Dir else f p)"

definition render :: "path \<Rightarrow> string" where
  "render p = (if p = [] then ''/'' else concat (map (\<lambda>c. CHR ''/'' # c) p))"

definition os_error :: "exc_class \<Rightarrow> string \<Rightarrow> path \<Rightarrow> exn" where
  "os_error c m p = Exc c (m @ '': '' @ [CHR 0x27] @ render p @ [CHR 0x27])"

definition no_such_file :: "path \<Rightarrow> exn" where
  "no_such_file p = os_error FileNotFoundError ''[Errno 2] No such file or directory'' p"

definition file_exists :: "path \<Rightarrow> exn" where
  "file_exists p = os_error FileExistsError ''[Errno 17] File exists'' p"

definition not_a_directory :: "path \<Rightarrow> exn" where
  "not_a_directory p = os_error NotADirectoryError ''[Errno 20] Not a directory'' p"

definition is_a_directory :: "path \<Rightarrow> exn" where
  "is_a_directory p = os_error IsADirectoryError ''[Errno 21] Is a directory'' p"

definition record_event :: "event \<Rightarrow> state \<Rightarrow> state" where
  "record_event ev s = s\<lparr>trace := trace s @ [ev]\<rparr>"

text \<open>
  \<^verbatim>\<open>p.exists()\<close>: pathlib answers \<^verbatim>\<open>False\<close> for a missing path and raises
  every other \<^verbatim>\<open>OSError\<close> of the underlying \<^verbatim>\<open>stat\<close> again.
\<close>

definition path_exists :: "world \<Rightarrow> path \<Rightarrow> state \<Rightarrow> (exn + bool) \<times> state" where
  "path_exists w p s =
     (let s' = record_event (Exists p) s
      in case exists_raises w (length (trace s)) of
           Some e \<Rightarrow> (Inl e, s')
         | None \<Rightarrow> (Inr (lookup (fs s) p \<noteq> None), s'))"

text \<open>\<^verbatim>\<open>p.is_dir()\<close>\<close>

definition is_dir :: "path \<Rightarrow> state \<Rightarrow> bool \<times> state" where
  "is_dir p s = (lookup (fs s) p = Some Dir, record_event (Stat p) s)"

text \<open>\<^verbatim>\<open>p.unlink()\<close>\<close>

definition unlink :: "world \<Rightarrow> path \<Rightarrow> state \<Rightarrow> (exn + unit) \<times> state" where
  "unlink w p s =
     (let s' = record_event (Unlink p) s
      in case unlink_raises w (length (trace s)) of
           Some e \<Rightarrow> (Inl e, s')
         | None \<Rightarrow>
             (case lookup (fs s) p of
                None \<Rightarrow> (Inl (no_such_file p), s')
              | Some Dir \<Rightarrow> (Inl (is_a_directory p), s')
              | Some (File b) \<Rightarrow> (Inr (), s'\<lparr>fs := (fs s)(p := None)\<rparr>)))"

text \<open>\<^verbatim>\<open>open(p, "wb")\<close>: creates the file, or truncates it.\<close>

definition open_wb :: "world \<Rightarrow> path \<Rightarrow> state \<Rightarrow> (exn + unit) \<times> state" where
  "open_wb w p s =
     (let s' = record_event (OpenWb p) s
      in case open_raises w of
           Some e \<Rightarrow> (Inl e, s')
         | None \<Rightarrow>
             (case lookup (fs s) p of
                Some Dir \<Rightarrow> (Inl (is_a_directory p), s')
              | _ \<Rightarrow>
                  (case lookup (fs s) (butlast p) of
                     None \<Rightarrow> (Inl (no_such_file p), s')
                   | Some (File b) \<Rightarrow> (Inl (not_a_directory p), s')
                   | Some Dir \<Rightarrow> (Inr (), s'\<lparr>fs := (fs s)(p \<mapsto> File [])\<rparr>))))"

text \<open>
  Writing \<open>b\<close> to the file just opened at \<open>p\<close>, and closing it. When the write raises
  after \<open>n\<close> bytes, those \<open>n\<close> bytes stay in the file.
\<close>

definition write_bytes :: "world \<Rightarrow> path \<Rightarrow> bytes \<Rightarrow> state \<Rightarrow> (exn + unit) \<times> state" where
  "write_bytes w p b s =
     (let s' = record_event (WriteBytes p b) s
      in case write_raises w of
           None \<Rightarrow> (Inr (), s'\<lparr>fs := (fs s)(p \<mapsto> File b)\<rparr>)
         | Some (n, e) \<Rightarrow> (Inl e, s'\<lparr>fs := (fs s)(p \<mapsto> File (take n b))\<rparr>))"

text \<open>
  \<^verbatim>\<open>shutil.copyfileobj(file.file, buffer)\<close>: what the stream holds from its current
  offset on goes to the file.
\<close>

definition copyfileobj :: "world \<Rightarrow> UploadFile \<Rightarrow> path \<Rightarrow> state \<Rightarrow> (exn + unit) \<times> state" where
  "copyfileobj w file p s = write_bytes w p (drop (offset file) (content file)) s"

text \<open>\<^verbatim>\<open>p.stat().st_size\<close>\<close>

definition stat_size :: "world \<Rightarrow> path \<Rightarrow> state \<Rightarrow> (exn + nat) \<times> state" where
  "stat_size w p s =
     (let s' = record_event (Stat p) s
      in case lookup (fs s) p of
           None \<Rightarrow> (Inl (no_such_file p), s')
         | Some Dir \<Rightarrow> (Inr (dir_size w), s')
         | Some (File b) \<Rightarrow> (Inr (length b), s'))"

text \<open>\<^verbatim>\<open>os.mkdir(p)\<close>\<close>

definition os_mkdir :: "path \<Rightarrow> state \<Rightarrow> (exn + unit) \<times> state" where
  "os_mkdir p s =
     (let s' = record_event (Mkdir p) s
      in case lookup (fs s) p of
           Some n \<Rightarrow> (Inl (file_exists p), s')
         | None \<Rightarrow>
             (case lookup (fs s) (butlast p) of
                None \<Rightarrow> (Inl (no_such_file p), s')
              | Some (File b) \<Rightarrow> (Inl (not_a_directory p), s')
              | Some Dir \<Rightarrow> (Inr (), s'\<lparr>fs := (fs s)(p \<mapsto> Dir)\<rparr>)))"

text \<open>
  \<^verbatim>\<open>p.mkdir(parents=..., exist_ok=...)\<close> of pathlib: it calls \<^verbatim>\<open>os.mkdir\<close>; on
  \<^verbatim>\<open>FileNotFoundError\<close> with \<^verbatim>\<open>parents\<close> it makes the parent (with
  \<^verbatim>\<open>parents=True, exist_ok=True\<close>) and then the directory itself without
  \<^verbatim>\<open>parents\<close>; on another \<^verbatim>\<open>OSError\<close> it raises unless \<^verbatim>\<open>exist_ok\<close> holds
  and the path is a directory.
\<close>

function mkdir :: "path \<Rightarrow> bool \<Rightarrow> bool \<Rightarrow> state \<Rightarrow> (exn + unit) \<times> state" where
  "mkdir p parents exist_ok s =
     (case os_mkdir p s of
        (Inr u, s1) \<Rightarrow> (Inr (), s1)
      | (Inl e, s1) \<Rightarrow>
          if exc_class_of e = FileNotFoundError then
            (if \<not> parents \<or> butlast p = p then (Inl e, s1)
             else (case mkdir (butlast p) True True s1 of
                     (Inl e', s2) \<Rightarrow> (Inl e', s2)
                   | (Inr u, s2) \<Rightarrow> mkdir p False exist_ok s2))
          else (case is_dir p s1 of
                  (d, s2) \<Rightarrow> if \<not> exist_ok \<or> \<not> d then (Inl e, s2) else (Inr (), s2)))"
  by pat_completeness auto
termination
proof (relation "measure (\<lambda>(p, parents, exist_ok, s). 2 * length p + (if parents then 1 else 0))")
  show "wf (measure (\<lambda>(p, parents, exist_ok, s). 2 * length p + (if parents then 1 else 0)))"
    by simp
next
  fix p :: path and parents exist_ok :: bool and s :: state and x e s1
  assume "\<not> (\<not> parents \<or> butlast p = p)"
  then have "parents" and "p \<noteq> []" by auto
  then show "((butlast p, True, True, s1), p, parents, exist_ok, s)
      \<in> measure (\<lambda>(p, parents, exist_ok, s). 2 * length p + (if parents then 1 else 0))"
    by (cases p rule: rev_cases) auto
next
  fix p :: path and parents exist_ok :: bool and s :: state and x e s1 y u s2
  assume "\<not> (\<not> parents \<or> butlast p = p)"
  then have "parents" by auto
  then show "((p, False, exist_ok, s2), p, parents, exist_ok, s)
      \<in> measure (\<lambda>(p, parents, exist_ok, s). 2 * length p + (if parents then 1 else 0))"
    by simp
qed

subsection \<open>Module initialisation\<close>

text \<open>
  \<^verbatim>\<open>BASE_DIR = Path(__file__).parent\<close> and the directories below it. The argument
  is \<^verbatim>\<open>__file__\<close>.
\<close>

definition BASE_DIR :: "path \<Rightarrow> path" where
  "BASE_DIR file = butlast file"

definition UPLOAD_DIR :: "path \<Rightarrow> path" where
  "UPLOAD_DIR file = BASE_DIR file @ [''uploads'']"

definition ECG_DIR :: "path \<Rightarrow> path" where
  "ECG_DIR file = UPLOAD_DIR file @ [''ecg'']"

definition XRAY_TEMP_DIR :: "path \<Rightarrow> path" where
  "XRAY_TEMP_DIR file = UPLOAD_DIR file @ [''xray_temp'']"

text \<open>
  \<^verbatim>\<open>for folder in [ECG_DIR, XRAY_TEMP_DIR]: folder.mkdir(parents=True, exist_ok=True)\<close>
\<close>

fun make_folders :: "path list \<Rightarrow> state \<Rightarrow> (exn + unit) \<times> state" where
  "make_folders [] s = (Inr (), s)"
| "make_folders (folder # folders) s =
     (case mkdir folder True True s of
        (Inl e, s1) \<Rightarrow> (Inl e, s1)
      | (Inr u, s1) \<Rightarrow> make_folders folders s1)"

definition setup_directories :: "path \<Rightarrow> state \<Rightarrow> (exn + unit) \<times> state" where
  "setup_directories file s = make_folders [ECG_DIR file, XRAY_TEMP_DIR file] s"

text \<open>
  \<^verbatim>\<open>try: xray_service = XRayService() except Exception: xray_service = None\<close>. The
  argument is what importing and constructing the service gives.
\<close>

definition init_xray_service :: "exn + 'r service \<Rightarrow> 'r service option" where
  "init_xray_service loaded = (case loaded of Inr svc \<Rightarrow> Some svc | Inl e \<Rightarrow> None)"

text \<open>
  Importing the module: the directories first, then the service. An exception of
  \<^verbatim>\<open>mkdir\<close> leaves the module and the application does not start.
\<close>

definition load_module :: "path \<Rightarrow> exn + 'r service \<Rightarrow> state \<Rightarrow> (exn + 'r app) \<times> state" where
  "load_module file loaded s =
     (case setup_directories file s of
        (Inl e, s1) \<Rightarrow> (Inl e, s1)
      | (Inr u, s1) \<Rightarrow>
          (Inr \<lparr>module_file = file, xray_service = init_xray_service loaded\<rparr>, s1))"

subsection \<open>The endpoints\<close>

text \<open>\<^verbatim>\<open>GET /health\<close>\<close>

definition health_check :: "'r app \<Rightarrow> world \<Rightarrow> 'r json" where
  "health_check app w =
     JObj [(''status'', JStr ''healthy''),
           (''timestamp'', JStr (isoformat (now w 0))),
           (''xray_ai'', JStr (if xray_service app \<noteq> None then ''active'' else ''inactive'')),
           (''ecg_storage'', JStr ''active'')]"

text \<open>\<^verbatim>\<open>if temp_path.exists(): temp_path.unlink()\<close>\<close>

definition unlink_if_exists :: "world \<Rightarrow> path \<Rightarrow> state \<Rightarrow> (exn + unit) \<times> state" where
  "unlink_if_exists w p s =
     (case path_exists w p s of
        (Inl e, s1) \<Rightarrow> (Inl e, s1)
      | (Inr found, s1) \<Rightarrow> if found then unlink w p s1 else (Inr (), s1))"

text \<open>
  The body of the \<^verbatim>\<open>try\<close> of \<^verbatim>\<open>analyze_xray\<close>: seek to the start, read the
  stream, write the bytes to the staging path, call the service, delete the staging
  file, build the answer. \<open>Inl r\<close> is what the body raises: an \<^verbatim>\<open>Exception\<close> of
  the stream or of the file system, or whatever the service raises.
\<close>

definition analyze_xray_try ::
  "'r service \<Rightarrow> world \<Rightarrow> UploadFile \<Rightarrow> string \<Rightarrow> path \<Rightarrow> state \<Rightarrow> (raised + 'r json) \<times> state" where
  "analyze_xray_try svc w file name temp_path s =
     (case seek_raises w of
        Some e \<Rightarrow> (Inl (Exception e), s)
      | None \<Rightarrow>
     (case read_raises w of
        Some e \<Rightarrow> (Inl (Exception e), s)
      | None \<Rightarrow>
     (let image_bytes = drop (offset (file\<lparr>offset := 0\<rparr>)) (content file) in
     (case open_wb w temp_path s of
        (Inl e, s1) \<Rightarrow> (Inl (Exception e), s1)
      | (Inr u, s1) \<Rightarrow>
     (case write_bytes w temp_path image_bytes s1 of
        (Inl e, s2) \<Rightarrow> (Inl (Exception e), s2)
      | (Inr u, s2) \<Rightarrow>
     (let s3 = record_event (AnalyzeCall image_bytes name) s2 in
     (case svc (fs s2) image_bytes name of
        Inl r \<Rightarrow> (Inl r, s3)
      | Inr result \<Rightarrow>
     (case unlink_if_exists w temp_path s3 of
        (Inl e, s4) \<Rightarrow> (Inl (Exception e), s4)
      | (Inr u, s4) \<Rightarrow>
          (Inr (JObj [(''success'', JBool True),
                      (''result'', JResult result),
                      (''timestamp'', JStr (isoformat (now w 0)))]), s4)))))))))"

text \<open>
  \<^verbatim>\<open>POST /api/xray/analyze\<close>. The two checks and the staging path come before the
  \<^verbatim>\<open>try\<close>: \<^verbatim>\<open>file.content_type.startswith\<close> raises \<^verbatim>\<open>AttributeError\<close> on
  \<^verbatim>\<open>None\<close>, and \<^verbatim>\<open>Path(file.filename)\<close> raises \<^verbatim>\<open>TypeError\<close> on \<^verbatim>\<open>None\<close>.
  The clause \<^verbatim>\<open>except Exception\<close> deletes the staging file and raises the 500; an
  exception of its own cleanup leaves the handler. There is no \<^verbatim>\<open>finally\<close>: what
  the body raises that is no \<^verbatim>\<open>Exception\<close> leaves the handler at once, with the
  state as the body left it.
\<close>

definition analyze_xray :: "'r app \<Rightarrow> world \<Rightarrow> state \<Rightarrow> UploadFile \<Rightarrow> 'r outcome \<times> state" where
  "analyze_xray app w s file =
     (case xray_service app of
        None \<Rightarrow> (HTTPException 503 ''X-ray AI not initialized'', s)
      | Some svc \<Rightarrow>
     (case content_type file of
        None \<Rightarrow>
          (Unhandled (Exc AttributeError
             (CHR 0x27 # ''NoneType'' @ CHR 0x27 # '' object has no attribute ''
              @ CHR 0x27 # ''startswith'' @ [CHR 0x27])), s)
      | Some ct \<Rightarrow>
          if \<not> startswith ct ''image/'' then (HTTPException 400 ''Invalid file type'', s)
          else
     (case filename file of
        None \<Rightarrow>
          (Unhandled (Exc TypeError
             ''expected str, bytes or os.PathLike object, not NoneType''), s)
      | Some name \<Rightarrow>
     (let file_id = uuid4 w;
          file_ext = lower (path_suffix name);
          temp_path = XRAY_TEMP_DIR (module_file app) @ [file_id @ file_ext]
      in
     (case analyze_xray_try svc w file name temp_path s of
        (Inr body, s1) \<Rightarrow> (Return body, s1)
      | (Inl (BaseException b), s1) \<Rightarrow> (UnhandledBase b, s1)
      | (Inl (Exception e), s1) \<Rightarrow>
          (case unlink_if_exists w temp_path s1 of
             (Inl e', s2) \<Rightarrow> (Unhandled e', s2)
           | (Inr u, s2) \<Rightarrow>
               (HTTPException 500 (''Analysis Error: '' @ str_exc e), s2)))))))"

definition allowed_extensions :: "string set" where
  "allowed_extensions = {''.png'', ''.jpg'', ''.jpeg'', ''.pdf''}"

text \<open>
  The body of the \<^verbatim>\<open>try\<close> of \<^verbatim>\<open>upload_ecg\<close>: open the destination, copy the
  stream, and after the file is closed read its size and build the answer.
\<close>

definition upload_ecg_try ::
  "world \<Rightarrow> UploadFile \<Rightarrow> string \<Rightarrow> path \<Rightarrow> state \<Rightarrow> (exn + 'r json) \<times> state" where
  "upload_ecg_try w file unique_filename save_path s =
     (case open_wb w save_path s of
        (Inl e, s1) \<Rightarrow> (Inl e, s1)
      | (Inr u, s1) \<Rightarrow>
     (case copyfileobj w file save_path s1 of
        (Inl e, s2) \<Rightarrow> (Inl e, s2)
      | (Inr u, s2) \<Rightarrow>
     (case stat_size w save_path s2 of
        (Inl e, s3) \<Rightarrow> (Inl e, s3)
      | (Inr st_size, s3) \<Rightarrow>
          (Inr (JObj [(''success'', JBool True),
                      (''message'', JStr ''ECG uploaded successfully''),
                      (''file_info'', JObj
                         [(''filename'', JStr unique_filename),
                          (''path'', JStr (''uploads/ecg/'' @ unique_filename)),
                          (''size_mb'', JNum (py_round2 (of_nat st_size / (1024 * 1024)))),
                          (''timestamp'', JStr (isoformat (now w 1)))])]), s3))))"

text \<open>
  \<^verbatim>\<open>POST /api/ecg/upload\<close>. The body of its \<^verbatim>\<open>try\<close> calls the file system
  only, so what it raises is an \<^verbatim>\<open>Exception\<close> and the clause
  \<^verbatim>\<open>except Exception\<close> catches it.
\<close>

definition upload_ecg :: "'r app \<Rightarrow> world \<Rightarrow> state \<Rightarrow> UploadFile \<Rightarrow> 'r outcome \<times> state" where
  "upload_ecg app w s file =
     (case filename file of
        None \<Rightarrow>
          (Unhandled (Exc TypeError
             ''expected str, bytes or os.PathLike object, not NoneType''), s)
      | Some name \<Rightarrow>
     (let file_ext = lower (path_suffix name) in
      if file_ext \<notin> allowed_extensions
      then (HTTPException 400 ''Only PNG, JPG, JPEG, PDF allowed'', s)
      else
     (let file_id = uuid4 w;
          timestamp = strftime_Ymd_HMS (now w 0);
          unique_filename = ''ecg_'' @ timestamp @ ''_'' @ file_id @ file_ext;
          save_path = ECG_DIR (module_file app) @ [unique_filename]
      in
     (case upload_ecg_try w file unique_filename save_path s of
        (Inr body, s1) \<Rightarrow> (Return body, s1)
      | (Inl e, s1) \<Rightarrow> (HTTPException 500 (''Upload Error: '' @ str_exc e), s1)))))"

text \<open>Reading a key of a returned dictionary.\<close>

definition jget :: "'r json \<Rightarrow> string \<Rightarrow> 'r json option" where
  "jget j k = (case j of JObj kvs \<Rightarrow> map_of kvs k | _ \<Rightarrow> None)"

subsection \<open>What a request adds to the trace\<close>

text \<open>
  The calls a request has made are the events its final trace holds beyond the trace
  it started from. \<open>try_events\<close> is the sequence of a request to
  \<^verbatim>\<open>/api/xray/analyze\<close> in which nothing raises.
\<close>

definition new_events :: "state \<Rightarrow> state \<Rightarrow> event list" where
  "new_events s s' = drop (length (trace s)) (trace s')"

definition try_events :: "path \<Rightarrow> bytes \<Rightarrow> string \<Rightarrow> event list" where
  "try_events tp b name =
     [OpenWb tp, WriteBytes tp b, AnalyzeCall b name, Exists tp, Unlink tp]"

subsection \<open>The name of a stored upload\<close>

text \<open>
  The dates whose year has four digits, for which \<^verbatim>\<open>%Y\<close> prints the same on
  every platform.
\<close>

definition valid_datetime :: "datetime \<Rightarrow> bool" where
  "valid_datetime dt =
     (1000 \<le> year dt \<and> year dt \<le> 9999 \<and> 1 \<le> month dt \<and> month dt \<le> 12
      \<and> 1 \<le> day dt \<and> day dt \<le> 31 \<and> hour dt \<le> 23 \<and> minute dt \<le> 59
      \<and> second dt \<le> 59 \<and> microsecond dt \<le> 999999)"

text \<open>
  The form of the name \<^verbatim>\<open>upload_ecg\<close> composes: \<^verbatim>\<open>ecg_\<close>, eight digits,
  \<^verbatim>\<open>_\<close>, six digits, \<^verbatim>\<open>_\<close>, the id and the extension.
\<close>

definition ecg_filename_format :: "string \<Rightarrow> string \<Rightarrow> string \<Rightarrow> bool" where
  "ecg_filename_format file_id ext name =
     (let d = take 8 (drop 4 name); t = take 6 (drop 13 name)
      in length d = 8 \<and> list_all isdigit d \<and> length t = 6 \<and> list_all isdigit t
         \<and> name = ''ecg_'' @ d @ ''_'' @ t @ ''_'' @ file_id @ ext)"

text \<open>
  The form in the words of the specification,
  \<^verbatim>\<open>ecg_<14-digit timestamp>_<uuid><ext>\<close>: \<^verbatim>\<open>ecg_\<close>, fourteen digits,
  \<^verbatim>\<open>_\<close>, the id and the extension.
\<close>

definition spec_ecg_filename :: "string \<Rightarrow> string \<Rightarrow> string \<Rightarrow> bool" where
  "spec_ecg_filename file_id ext name =
     (let ts = take 14 (drop 4 name)
      in length ts = 14 \<and> list_all isdigit ts
         \<and> name = ''ecg_'' @ ts @ ''_'' @ file_id @ ext)"

subsection \<open>Where the directories are\<close>

text \<open>
  No path from the root to \<open>p\<close>, \<open>p\<close> included, is a regular file: nothing in
  the tree stands in the way of making \<open>p\<close> and its parents.
\<close>

definition is_file :: "node option \<Rightarrow> bool" where
  "is_file n = (case n of Some (File b) \<Rightarrow> True | _ \<Rightarrow> False)"

definition no_file_on_path :: "filesystem \<Rightarrow> path \<Rightarrow> bool" where
  "no_file_on_path f p = list_all (\<lambda>k. \<not> is_file (lookup f (take k p))) [0..<Suc (length p)]"

text \<open>
  The directories in the words of the specification: \<^verbatim>\<open>uploads/ecg/\<close> and
  \<^verbatim>\<open>uploads/xray_temp/\<close> relative to the working directory of the service.
\<close>

definition spec_archival_dir :: "path \<Rightarrow> path" where
  "spec_archival_dir cwd = cwd @ [''uploads'', ''ecg'']"

definition spec_staging_dir :: "path \<Rightarrow> path" where
  "spec_staging_dir cwd = cwd @ [''uploads'', ''xray_temp'']"

subsection \<open>A concrete deployment\<close>

text \<open>
  The module lies at \<^verbatim>\<open>/srv/backend/main.py\<close> and the service is started from
  \<^verbatim>\<open>/srv\<close>; before the module is imported the file system holds \<^verbatim>\<open>/srv\<close>
  and \<^verbatim>\<open>/srv/backend\<close>. The service of the example answers \<^verbatim>\<open>Normal\<close> for
  every image.
\<close>

definition demo_module_file :: path where
  "demo_module_file = [''srv'', ''backend'', ''main.py'']"

definition demo_cwd :: path where
  "demo_cwd = [''srv'']"

definition demo_fs :: filesystem where
  "demo_fs = [[''srv''] \<mapsto> Dir, [''srv'', ''backend''] \<mapsto> Dir]"

definition demo_state :: state where
  "demo_state = \<lparr>fs = demo_fs, trace = []\<rparr>"

definition demo_ready_state :: state where
  "demo_ready_state = snd (setup_directories demo_module_file demo_state)"

definition demo_now :: datetime where
  "demo_now = \<lparr>year = 2024, month = 1, day = 2, hour = 3, minute = 4, second = 5,
     microsecond = 0\<rparr>"

definition demo_world :: world where
  "demo_world = \<lparr>uuid4 = ''0f8fad5b-d9cb-469f-a165-70867728950e'', now = (\<lambda>k. demo_now),
     seek_raises = None, read_raises = None, open_raises = None, write_raises = None,
     exists_raises = (\<lambda>t. None), unlink_raises = (\<lambda>t. None), dir_size = 4096\<rparr>"

definition demo_service :: "string service" where
  "demo_service files image_bytes name = Inr ''Normal''"

definition demo_app :: "string app" where
  "demo_app = \<lparr>module_file = demo_module_file, xray_service = Some demo_service\<rparr>"

definition demo_unavailable_app :: "string app" where
  "demo_unavailable_app = \<lparr>module_file = demo_module_file, xray_service = None\<rparr>"

definition demo_import_error :: exn where
  "demo_import_error =
     Exc (OtherException ''ModuleNotFoundError'') ''No module named services''"

text \<open>
  Three uploads: an image, a document that neither endpoint accepts, and a PDF; the
  staging path of the image and the destination of the PDF; a world in which the write
  raises after two bytes; the answer to the PDF.
\<close>

definition demo_image :: UploadFile where
  "demo_image = \<lparr>filename = Some ''Chest.PNG'', content_type = Some ''image/png'',
     content = [137, 80, 78, 71], offset = 0\<rparr>"

definition demo_text :: UploadFile where
  "demo_text = \<lparr>filename = Some ''report.docx'', content_type = Some ''text/plain'',
     content = [80, 75], offset = 0\<rparr>"

definition demo_scan :: UploadFile where
  "demo_scan = \<lparr>filename = Some ''ECG 01.PDF'', content_type = Some ''application/pdf'',
     content = [37, 80, 68, 70, 45], offset = 0\<rparr>"

definition demo_temp_path :: path where
  "demo_temp_path = [''srv'', ''backend'', ''uploads'', ''xray_temp'',
     ''0f8fad5b-d9cb-469f-a165-70867728950e.png'']"

definition demo_save_path :: path where
  "demo_save_path = [''srv'', ''backend'', ''uploads'', ''ecg'',
     ''ecg_20240102_030405_0f8fad5b-d9cb-469f-a165-70867728950e.pdf'']"


definition demo_disk_full :: exn where
  "demo_disk_full = Exc (OtherException ''OSError'') ''[Errno 28] No space left on device''"

definition demo_disk_full_world :: world where
  "demo_disk_full_world = demo_world\<lparr>write_raises := Some (2, demo_disk_full)\<rparr>"

definition demo_stored_name :: string where
  "demo_stored_name = ''ecg_20240102_030405_0f8fad5b-d9cb-469f-a165-70867728950e.pdf''"

definition demo_file_info :: "string json" where
  "demo_file_info =
     JObj [(''filename'', JStr demo_stored_name),
           (''path'', JStr (''uploads/ecg/'' @ demo_stored_name)),
           (''size_mb'', JNum 0),
           (''timestamp'', JStr ''2024-01-02T03:04:05'')]"

definition demo_upload_answer :: "string json" where
  "demo_upload_answer =
     JObj [(''success'', JBool True),
           (''message'', JStr ''ECG uploaded successfully''),
           (''file_info'', demo_file_info)]"








definition demo_checking_service :: "string service" where
  "demo_checking_service files image_bytes name =
     (if files demo_temp_path = Some (File image_bytes) then Inr name
      else Inl (Exception (Exc (OtherException ''ValueError'') ''the staged file differs'')))"

definition demo_checking_app :: "string app" where
  "demo_checking_app =
     \<lparr>module_file = demo_module_file, xray_service = Some demo_checking_service\<rparr>"

section \<open>Properties\<close>

subsection \<open>Evaluation on the concrete deployment\<close>

declare mkdir.simps [simp del]

lemmas demo_defs =
  demo_module_file_def demo_fs_def demo_state_def demo_now_def demo_world_def demo_service_def
  demo_app_def demo_import_error_def demo_image_def demo_text_def demo_unavailable_app_def

lemmas dir_defs = ECG_DIR_def XRAY_TEMP_DIR_def UPLOAD_DIR_def BASE_DIR_def

lemmas fs_defs =
  lookup_def record_event_def os_error_def no_such_file_def file_exists_def
  not_a_directory_def is_a_directory_def path_exists_def is_dir_def unlink_def open_wb_def
  write_bytes_def copyfileobj_def stat_size_def os_mkdir_def

lemma demo_setup:
  "setup_directories demo_module_file demo_state =
     (Inr (),
      \<lparr>fs = demo_fs([''srv'', ''backend'', ''uploads''] \<mapsto> Dir,
                    [''srv'', ''backend'', ''uploads'', ''ecg''] \<mapsto> Dir,
                    [''srv'', ''backend'', ''uploads'', ''xray_temp''] \<mapsto> Dir),
       trace = [Mkdir [''srv'', ''backend'', ''uploads'', ''ecg''],
                Mkdir [''srv'', ''backend'', ''uploads''],
                Mkdir [''srv'', ''backend'', ''uploads'', ''ecg''],
                Mkdir [''srv'', ''backend'', ''uploads'', ''xray_temp'']]\<rparr>)"
  by (simp add: setup_directories_def dir_defs demo_defs mkdir.simps fs_defs)

lemma demo_ready_state_eq:
  "demo_ready_state =
      \<lparr>fs = demo_fs([''srv'', ''backend'', ''uploads''] \<mapsto> Dir,
                    [''srv'', ''backend'', ''uploads'', ''ecg''] \<mapsto> Dir,
                    [''srv'', ''backend'', ''uploads'', ''xray_temp''] \<mapsto> Dir),
       trace = [Mkdir [''srv'', ''backend'', ''uploads'', ''ecg''],
                Mkdir [''srv'', ''backend'', ''uploads''],
                Mkdir [''srv'', ''backend'', ''uploads'', ''ecg''],
                Mkdir [''srv'', ''backend'', ''uploads'', ''xray_temp'']]\<rparr>"
  by (simp add: demo_ready_state_def demo_setup)

lemma suffix_report_docx: "path_suffix ''report.docx'' = ''.docx''"
  by (simp add: path_suffix_def path_name_def path_parts_def rfind_def)

lemma lower_docx: "lower ''.docx'' = ''.docx''"
  by (simp add: lower_def lower_char_def)

lemma suffix_chest_png: "lower (path_suffix ''Chest.PNG'') = ''.png''"
  by (simp add: path_suffix_def path_name_def path_parts_def rfind_def lower_def lower_char_def)

lemma suffix_ecg_pdf: "lower (path_suffix ''ECG 01.PDF'') = ''.pdf''"
  by (simp add: path_suffix_def path_name_def path_parts_def rfind_def lower_def lower_char_def)

lemma demo_timestamp: "strftime_Ymd_HMS demo_now = ''20240102_030405''"
  by (simp add: strftime_Ymd_HMS_def demo_now_def zfill_def str_nat.simps digit_char_def)

lemma demo_isoformat: "isoformat demo_now = ''2024-01-02T03:04:05''"
  by (simp add: isoformat_def demo_now_def zfill_def str_nat.simps digit_char_def)

lemma demo_analyze:
  "analyze_xray demo_app demo_world demo_ready_state demo_image =
     (Return (JObj [(''success'', JBool True), (''result'', JResult ''Normal''),
                    (''timestamp'', JStr ''2024-01-02T03:04:05'')]),
      demo_ready_state\<lparr>trace := trace demo_ready_state
        @ [OpenWb demo_temp_path, WriteBytes demo_temp_path [137, 80, 78, 71],
           AnalyzeCall [137, 80, 78, 71] ''Chest.PNG'', Exists demo_temp_path,
           Unlink demo_temp_path]\<rparr>)"
  by (simp add: analyze_xray_def analyze_xray_try_def unlink_if_exists_def Let_def
      suffix_chest_png demo_isoformat demo_ready_state_eq demo_temp_path_def
      demo_app_def demo_world_def demo_image_def demo_module_file_def demo_fs_def
      demo_service_def startswith_def dir_defs fs_defs fun_upd_twist)

lemma demo_size_mb: "py_round2 (5 / 1048576) = 0"
proof -
  have "\<lfloor>125 / 262144 :: rat\<rfloor> = 0"
    by (simp add: floor_eq_iff)
  then show ?thesis
    by (simp add: py_round2_def round_half_even_def Let_def)
qed

lemma demo_upload:
  "fst (upload_ecg demo_app demo_world demo_ready_state demo_scan) = Return demo_upload_answer"
  by (simp add: upload_ecg_def upload_ecg_try_def Let_def allowed_extensions_def
      suffix_ecg_pdf demo_timestamp demo_isoformat demo_size_mb demo_ready_state_eq
      demo_upload_answer_def demo_file_info_def demo_stored_name_def
      demo_app_def demo_world_def demo_scan_def demo_module_file_def demo_fs_def
      dir_defs fs_defs)

subsection \<open>The operations on the file system\<close>

lemma record_event_fs [simp]: "fs (record_event ev s) = fs s"
  by (simp add: record_event_def)

lemma record_event_trace [simp]: "trace (record_event ev s) = trace s @ [ev]"
  by (simp add: record_event_def)

lemma new_events_append [simp]: "trace s' = trace s @ evs \<Longrightarrow> new_events s s' = evs"
  by (simp add: new_events_def)

lemma new_events_same [simp]: "new_events s s = []"
  by (simp add: new_events_def)

lemma unlink_if_exists_ok:
  assumes "unlink_if_exists w p s = (Inr u, s')"
  shows "fs s' p = None" and "\<And>q. q \<noteq> p \<Longrightarrow> fs s' q = fs s q"
  using assms
  by (auto simp: unlink_if_exists_def path_exists_def unlink_def lookup_def Let_def
      split: if_splits option.splits node.splits)

lemma unlink_if_exists_raises:
  assumes "unlink_if_exists w p s = (Inl e, s')"
  shows "fs s' = fs s"
    and "(\<exists>t. exists_raises w t = Some e) \<or> (\<exists>t. unlink_raises w t = Some e)
         \<or> e = is_a_directory p"
  using assms
  by (auto simp: unlink_if_exists_def path_exists_def unlink_def lookup_def Let_def
      split: if_splits option.splits node.splits)

lemma unlink_if_exists_trace:
  assumes "unlink_if_exists w p s = (r, s')"
  shows "trace s' = trace s @ [Exists p] \<or> trace s' = trace s @ [Exists p, Unlink p]"
  using assms
  by (auto simp: unlink_if_exists_def path_exists_def unlink_def Let_def
      split: if_splits option.splits node.splits)

lemma unlink_if_exists_ok_trace:
  assumes "unlink_if_exists w p s = (Inr u, s')" and "\<exists>b. fs s p = Some (File b)"
  shows "trace s' = trace s @ [Exists p, Unlink p]"
  using assms
  by (auto simp: unlink_if_exists_def path_exists_def unlink_def Let_def lookup_def
      split: if_splits option.splits node.splits)

lemma open_wb_ok_fs:
  assumes "open_wb w p s = (Inr u, s')"
  shows "fs s' = (fs s)(p \<mapsto> File [])"
  using assms by (auto simp: open_wb_def Let_def split: option.splits node.splits)

lemma open_wb_raises_fs:
  assumes "open_wb w p s = (Inl e, s')"
  shows "fs s' = fs s"
  using assms by (auto simp: open_wb_def Let_def split: option.splits node.splits)

lemma write_bytes_ok_whole:
  assumes "write_bytes w p b s = (Inr u, s')"
  shows "fs s' = (fs s)(p \<mapsto> File b)"
  using assms by (auto simp: write_bytes_def Let_def split: option.splits)

lemma open_wb_frame:
  assumes "open_wb w p s = (r, s')" and "q \<noteq> p"
  shows "fs s' q = fs s q"
  using assms
  by (auto simp: open_wb_def Let_def split: option.splits node.splits)

lemma open_wb_trace:
  assumes "open_wb w p s = (r, s')"
  shows "trace s' = trace s @ [OpenWb p]"
  using assms by (auto simp: open_wb_def Let_def split: option.splits node.splits)

lemma write_bytes_frame:
  assumes "write_bytes w p b s = (r, s')" and "q \<noteq> p"
  shows "fs s' q = fs s q"
  using assms
  by (auto simp: write_bytes_def Let_def split: option.splits)

lemma write_bytes_trace:
  assumes "write_bytes w p b s = (r, s')"
  shows "trace s' = trace s @ [WriteBytes p b]"
  using assms by (auto simp: write_bytes_def Let_def split: option.splits)

lemma write_bytes_ok_fs:
  assumes "write_bytes w p b s = (Inr u, s')"
  shows "fs s' p = Some (File b)"
  using assms by (auto simp: write_bytes_def Let_def split: option.splits)

subsection \<open>The gateway is unavailable\<close>

lemma load_module_service:
  "load_module file loaded s0 = (Inr app, s1) \<Longrightarrow> xray_service app = init_xray_service loaded"
  by (auto simp: load_module_def split: prod.splits sum.splits)

text \<open>
  C5. When importing or constructing the X-ray service raised while the module was
  loaded, \<^verbatim>\<open>/health\<close> reports \<^verbatim>\<open>xray_ai\<close> as \<^verbatim>\<open>"inactive"\<close>, and
  \<^verbatim>\<open>/api/xray/analyze\<close> raises the 503 for every uploaded file and leaves the state
  as it was: the file system is the same and no call on it is recorded.
\<close>

theorem unavailable_gateway_503:
  assumes "load_module file (Inl e) s0 = (Inr app, s1)"
  shows "jget (health_check app w) ''xray_ai'' = Some (JStr ''inactive'')
       \<and> analyze_xray app w s up = (HTTPException 503 ''X-ray AI not initialized'', s)"
proof -
  have "xray_service app = None"
    using load_module_service [OF assms] by (simp add: init_xray_service_def)
  then show ?thesis
    by (simp add: health_check_def jget_def analyze_xray_def)
qed

theorem unavailable_gateway_503_witness:
  "load_module demo_module_file (Inl demo_import_error) demo_state
     = (Inr demo_unavailable_app, demo_ready_state)
   \<and> jget (health_check demo_unavailable_app demo_world) ''xray_ai'' = Some (JStr ''inactive'')
   \<and> analyze_xray demo_unavailable_app demo_world demo_ready_state demo_text
       = (HTTPException 503 ''X-ray AI not initialized'', demo_ready_state)"
proof -
  have h: "load_module demo_module_file (Inl demo_import_error) demo_state
     = (Inr demo_unavailable_app, demo_ready_state)"
    by (simp add: load_module_def demo_ready_state_def demo_setup init_xray_service_def
        demo_unavailable_app_def)
  show ?thesis
    using h unavailable_gateway_503 [OF h, of demo_world demo_ready_state demo_text] by simp
qed

text \<open>
  C9. The availability check comes first: while the service is \<^verbatim>\<open>None\<close>, every
  request to \<^verbatim>\<open>/api/xray/analyze\<close> ends in the 503, whatever its content type (an
  image type, another type or none), so the 400 of the content-type check is not
  reached.
\<close>

theorem availability_check_first:
  assumes "xray_service app = None"
  shows "analyze_xray app w s up = (HTTPException 503 ''X-ray AI not initialized'', s)"
  using assms by (simp add: analyze_xray_def)

theorem availability_check_first_witness:
  "xray_service demo_unavailable_app = None
   \<and> content_type demo_text = Some ''text/plain''
   \<and> \<not> startswith ''text/plain'' ''image/''
   \<and> analyze_xray demo_unavailable_app demo_world demo_state demo_text
       = (HTTPException 503 ''X-ray AI not initialized'', demo_state)"
proof -
  have h: "xray_service demo_unavailable_app = None"
    by (simp add: demo_unavailable_app_def)
  show ?thesis
    using h availability_check_first [OF h, of demo_world demo_state demo_text]
    by (simp add: demo_text_def startswith_def)
qed

subsection \<open>Validation\<close>

text \<open>
  C6. A request to \<^verbatim>\<open>/api/ecg/upload\<close> whose filename has a lowercased extension
  outside \<^verbatim>\<open>.png .jpg .jpeg .pdf\<close> ends in the 400 with the detail
  \<^verbatim>\<open>Only PNG, JPG, JPEG, PDF allowed\<close>, and the state is as before: nothing is
  written.
\<close>

theorem ecg_extension_rejected:
  assumes "filename up = Some name"
    and "lower (path_suffix name) \<notin> {''.png'', ''.jpg'', ''.jpeg'', ''.pdf''}"
  shows "upload_ecg app w s up = (HTTPException 400 ''Only PNG, JPG, JPEG, PDF allowed'', s)"
  using assms by (simp add: upload_ecg_def allowed_extensions_def)

theorem ecg_extension_rejected_witness:
  "filename demo_text = Some ''report.docx''
   \<and> lower (path_suffix ''report.docx'') \<notin> {''.png'', ''.jpg'', ''.jpeg'', ''.pdf''}
   \<and> upload_ecg demo_app demo_world demo_ready_state demo_text
       = (HTTPException 400 ''Only PNG, JPG, JPEG, PDF allowed'', demo_ready_state)"
proof -
  have h1: "filename demo_text = Some ''report.docx''"
    by (simp add: demo_text_def)
  have h2: "lower (path_suffix ''report.docx'') \<notin> {''.png'', ''.jpg'', ''.jpeg'', ''.pdf''}"
    by (simp add: suffix_report_docx lower_docx)
  show ?thesis
    using h1 h2 ecg_extension_rejected [OF h1 h2, of demo_app demo_world demo_ready_state]
    by simp
qed

text \<open>
  C4, as stated, fails: a request with the content type \<^verbatim>\<open>text/plain\<close> made while
  the service is \<^verbatim>\<open>None\<close> ends in the 503, not in the 400.
\<close>

theorem non_image_400_counterexample:
  "content_type demo_text = Some ''text/plain''
   \<and> \<not> startswith ''text/plain'' ''image/''
   \<and> fst (analyze_xray demo_unavailable_app demo_world demo_state demo_text)
       = HTTPException 503 ''X-ray AI not initialized''"
  by (simp add: demo_text_def startswith_def analyze_xray_def demo_unavailable_app_def)

text \<open>
  C4, amended. A request to \<^verbatim>\<open>/api/xray/analyze\<close> whose declared content type does
  not start with \<^verbatim>\<open>image/\<close> leaves the state as it was (no staging file, no call on
  the file system), and when the service is available it ends in the 400.
\<close>

theorem non_image_rejected_without_io:
  assumes "content_type up = Some ct" and "\<not> startswith ct ''image/''"
  shows "snd (analyze_xray app w s up) = s
       \<and> (xray_service app \<noteq> None \<longrightarrow>
            fst (analyze_xray app w s up) = HTTPException 400 ''Invalid file type'')"
  using assms by (auto simp: analyze_xray_def split: option.splits)

theorem non_image_rejected_without_io_witness:
  "content_type demo_text = Some ''text/plain''
   \<and> \<not> startswith ''text/plain'' ''image/''
   \<and> xray_service demo_app \<noteq> None
   \<and> analyze_xray demo_app demo_world demo_ready_state demo_text
       = (HTTPException 400 ''Invalid file type'', demo_ready_state)"
proof -
  have h1: "content_type demo_text = Some ''text/plain''"
    by (simp add: demo_text_def)
  have h2: "\<not> startswith ''text/plain'' ''image/''"
    by (simp add: startswith_def)
  have h3: "xray_service demo_app \<noteq> None"
    by (simp add: demo_app_def)
  show ?thesis
    using h1 h2 h3 non_image_rejected_without_io [OF h1 h2, of demo_app demo_world demo_ready_state]
    by (simp add: prod_eq_iff)
qed

subsection \<open>Exceptions that leave the handlers\<close>

text \<open>
  C3. The checks of both handlers stand before their \<^verbatim>\<open>try\<close>. An upload without a
  declared content type makes \<^verbatim>\<open>file.content_type.startswith\<close> raise
  \<^verbatim>\<open>AttributeError\<close> in \<^verbatim>\<open>analyze_xray\<close>, and an upload whose filename is
  \<^verbatim>\<open>None\<close> makes \<^verbatim>\<open>Path(file.filename)\<close> raise \<^verbatim>\<open>TypeError\<close> in
  \<^verbatim>\<open>upload_ecg\<close>; neither is caught by the handler.
\<close>

theorem missing_content_type_unhandled:
  "fst (analyze_xray demo_app demo_world demo_ready_state (demo_image\<lparr>content_type := None\<rparr>))
     = Unhandled (Exc AttributeError
         (CHR 0x27 # ''NoneType'' @ CHR 0x27 # '' object has no attribute ''
          @ CHR 0x27 # ''startswith'' @ [CHR 0x27]))
   \<and> fst (upload_ecg demo_app demo_world demo_ready_state (demo_image\<lparr>filename := None\<rparr>))
     = Unhandled (Exc TypeError ''expected str, bytes or os.PathLike object, not NoneType'')"
  by (simp add: analyze_xray_def upload_ecg_def demo_app_def)

subsection \<open>The staging file\<close>

text \<open>
  What the body of the \<^verbatim>\<open>try\<close> has done when it ends. Either the service was
  not called: the stream, the open or the write raised. Or the service was called, on
  the whole content of the stream and the declared filename, in a file system that
  differs from the one before the request in the staging file alone, which holds that
  content; then the body ends with what the service raised, or with an exception of
  the cleanup and the staging file in place, or with the answer and the staging file
  deleted.
\<close>

lemma analyze_xray_try_cases:
  assumes "analyze_xray_try svc w up name tp s = (r, s')" and "tp \<noteq> []"
  shows "((\<exists>e. r = Inl (Exception e))
            \<and> (\<forall>q. q \<noteq> tp \<longrightarrow> fs s' q = fs s q)
            \<and> (trace s' = trace s \<or> trace s' = trace s @ [OpenWb tp]
                 \<or> trace s' = trace s @ [OpenWb tp, WriteBytes tp (content up)]))
       \<or> ((\<exists>x. r = Inl x \<and> svc ((fs s)(tp \<mapsto> File (content up))) (content up) name = Inl x)
            \<and> fs s' = (fs s)(tp \<mapsto> File (content up))
            \<and> trace s' = trace s
                 @ [OpenWb tp, WriteBytes tp (content up), AnalyzeCall (content up) name])
       \<or> ((\<exists>result e. svc ((fs s)(tp \<mapsto> File (content up))) (content up) name = Inr result
               \<and> r = Inl (Exception e)
               \<and> ((\<exists>t. exists_raises w t = Some e) \<or> (\<exists>t. unlink_raises w t = Some e)))
            \<and> fs s' = (fs s)(tp \<mapsto> File (content up))
            \<and> (trace s' = trace s
                  @ [OpenWb tp, WriteBytes tp (content up), AnalyzeCall (content up) name,
                     Exists tp]
                 \<or> trace s' = trace s
                  @ [OpenWb tp, WriteBytes tp (content up), AnalyzeCall (content up) name,
                     Exists tp, Unlink tp]))
       \<or> ((\<exists>result. svc ((fs s)(tp \<mapsto> File (content up))) (content up) name = Inr result
               \<and> r = Inr (JObj [(''success'', JBool True), (''result'', JResult result),
                                 (''timestamp'', JStr (isoformat (now w 0)))]))
            \<and> fs s' = (fs s)(tp := None)
            \<and> trace s' = trace s
                 @ [OpenWb tp, WriteBytes tp (content up), AnalyzeCall (content up) name,
                    Exists tp, Unlink tp])"
    (is "?early \<or> ?raised \<or> ?cleanup \<or> ?done")
proof (cases "seek_raises w = None \<and> read_raises w = None")
  case False
  with assms(1) have "s' = s" and "\<exists>e. r = Inl (Exception e)"
    by (auto simp: analyze_xray_try_def split: option.splits)
  then have ?early by simp
  then show ?thesis by blast
next
  case True
  obtain r1 s1 where o: "open_wb w tp s = (r1, s1)" by (cases "open_wb w tp s") auto
  note t1 = open_wb_trace [OF o]
  show ?thesis
  proof (cases r1)
    case (Inl e)
    with assms(1) True o have "s' = s1" and "\<exists>e. r = Inl (Exception e)"
      by (auto simp: analyze_xray_try_def)
    with t1 open_wb_raises_fs [OF o [unfolded Inl]] have ?early by simp
    then show ?thesis by blast
  next
    case (Inr u)
    note f1 = open_wb_ok_fs [OF o [unfolded Inr]]
    obtain r2 s2 where wr: "write_bytes w tp (content up) s1 = (r2, s2)"
      by (cases "write_bytes w tp (content up) s1") auto
    note t2 = write_bytes_trace [OF wr]
    show ?thesis
    proof (cases r2)
      case (Inl e)
      with assms(1) True o Inr wr have "s' = s2" and "\<exists>e. r = Inl (Exception e)"
        by (auto simp: analyze_xray_try_def)
      moreover have "\<forall>q. q \<noteq> tp \<longrightarrow> fs s2 q = fs s q"
        using write_bytes_frame [OF wr] open_wb_frame [OF o] by simp
      ultimately have ?early using t1 t2 by simp
      then show ?thesis by blast
    next
      case r2: (Inr u2)
      have f2: "fs s2 = (fs s)(tp \<mapsto> File (content up))"
        using write_bytes_ok_whole [OF wr [unfolded r2]] f1 by simp
      define s3 where "s3 = record_event (AnalyzeCall (content up) name) s2"
      have f3: "fs s3 = (fs s)(tp \<mapsto> File (content up))"
        using f2 by (simp add: s3_def)
      have t3: "trace s3 = trace s
          @ [OpenWb tp, WriteBytes tp (content up), AnalyzeCall (content up) name]"
        using t1 t2 by (simp add: s3_def)
      show ?thesis
      proof (cases "svc ((fs s)(tp \<mapsto> File (content up))) (content up) name")
        case (Inl x)
        with assms(1) True o Inr wr r2 f2 have "s' = s3" and "r = Inl x"
          by (auto simp: analyze_xray_try_def s3_def)
        with Inl f3 t3 have ?raised by simp
        then show ?thesis by blast
      next
        case res: (Inr result)
        obtain r4 s4 where cl: "unlink_if_exists w tp s3 = (r4, s4)"
          by (cases "unlink_if_exists w tp s3") auto
        from assms(1) True o Inr wr r2 res cl f2 have s': "s' = s4"
          by (auto simp: analyze_xray_try_def s3_def split: sum.splits)
        show ?thesis
        proof (cases r4)
          case (Inl e)
          with assms(1) True o Inr wr r2 res cl f2 have r: "r = Inl (Exception e)"
            by (auto simp: analyze_xray_try_def s3_def)
          have "e \<noteq> is_a_directory tp \<or> (\<exists>t. unlink_raises w t = Some e)
              \<or> (\<exists>t. exists_raises w t = Some e)"
            using cl [unfolded Inl] f3 assms(2)
            by (auto simp: unlink_if_exists_def path_exists_def unlink_def lookup_def Let_def
                split: if_splits option.splits)
          with unlink_if_exists_raises [OF cl [unfolded Inl]]
          have "(\<exists>t. exists_raises w t = Some e) \<or> (\<exists>t. unlink_raises w t = Some e)"
            by blast
          with unlink_if_exists_raises(1) [OF cl [unfolded Inl]]
            unlink_if_exists_trace [OF cl] res r f3 t3 s'
          have ?cleanup by auto
          then show ?thesis by blast
        next
          case r4: (Inr u4)
          with assms(1) True o Inr wr r2 res cl f2
          have r: "r = Inr (JObj [(''success'', JBool True), (''result'', JResult result),
                                 (''timestamp'', JStr (isoformat (now w 0)))])"
            by (auto simp: analyze_xray_try_def s3_def)
          have "\<exists>b. fs s3 tp = Some (File b)" using f3 by simp
          note t4 = unlink_if_exists_ok_trace [OF cl [unfolded r4] this]
          have "fs s4 = (fs s)(tp := None)"
          proof
            fix q show "fs s4 q = ((fs s)(tp := None)) q"
              using unlink_if_exists_ok [OF cl [unfolded r4]] f3 by (cases "q = tp") auto
          qed
          with res r t3 t4 s' have ?done by simp
          then show ?thesis by blast
        qed
      qed
    qed
  qed
qed

lemma unlink_if_exists_ok_fs:
  assumes "unlink_if_exists w p s = (Inr u, s')"
  shows "fs s' = (fs s)(p := None)"
proof
  fix q show "fs s' q = ((fs s)(p := None)) q"
    using unlink_if_exists_ok [OF assms] by (cases "q = p") auto
qed

lemma unlink_if_exists_raises_file:
  assumes "unlink_if_exists w p s = (Inl e, s')" and "fs s p = Some (File b)" and "p \<noteq> []"
  shows "(\<exists>t. exists_raises w t = Some e) \<or> (\<exists>t. unlink_raises w t = Some e)"
  using assms
  by (auto simp: unlink_if_exists_def path_exists_def unlink_def lookup_def Let_def
      split: if_splits option.splits)

text \<open>
  The whole handler, for a request that reaches the \<^verbatim>\<open>try\<close>: what it has called,
  what it has left of the file system, and how it ends, told by what the service
  answers on the stream's content, the declared filename and the file system with the
  staging file written.
\<close>

lemma analyze_xray_cases:
  assumes "xray_service app = Some svc"
    and "content_type up = Some ct" and "startswith ct ''image/''"
    and "filename up = Some name"
    and "tp = XRAY_TEMP_DIR (module_file app) @ [uuid4 w @ lower (path_suffix name)]"
    and "analyze_xray app w s up = (out, s')"
  shows "\<exists>evs. trace s' = trace s @ evs \<and> set evs \<subseteq> set (try_events tp (content up) name)"
    and "\<forall>q. q \<noteq> tp \<longrightarrow> fs s' q = fs s q"
    and "AnalyzeCall (content up) name \<notin> set (new_events s s') \<longrightarrow>
           (\<exists>d. out = HTTPException 500 d \<and> fs s' tp = None)
         \<or> (\<exists>e. out = Unhandled e
               \<and> ((\<exists>t. exists_raises w t = Some e) \<or> (\<exists>t. unlink_raises w t = Some e)
                    \<or> e = is_a_directory tp))"
    and "AnalyzeCall (content up) name \<in> set (new_events s s') \<longrightarrow>
           (case svc ((fs s)(tp \<mapsto> File (content up))) (content up) name of
              Inr result \<Rightarrow>
                (out = Return (JObj [(''success'', JBool True), (''result'', JResult result),
                                     (''timestamp'', JStr (isoformat (now w 0)))])
                   \<and> fs s' = (fs s)(tp := None))
                \<or> (\<exists>e. ((\<exists>t. exists_raises w t = Some e) \<or> (\<exists>t. unlink_raises w t = Some e))
                      \<and> out = HTTPException 500 (''Analysis Error: '' @ str_exc e)
                      \<and> fs s' = (fs s)(tp := None))
                \<or> (\<exists>e. ((\<exists>t. exists_raises w t = Some e) \<or> (\<exists>t. unlink_raises w t = Some e))
                      \<and> out = Unhandled e
                      \<and> fs s' = (fs s)(tp \<mapsto> File (content up)))
            | Inl (Exception e) \<Rightarrow>
                (out = HTTPException 500 (''Analysis Error: '' @ str_exc e)
                   \<and> fs s' = (fs s)(tp := None))
                \<or> (\<exists>e'. ((\<exists>t. exists_raises w t = Some e')
                            \<or> (\<exists>t. unlink_raises w t = Some e'))
                      \<and> out = Unhandled e'
                      \<and> fs s' = (fs s)(tp \<mapsto> File (content up)))
            | Inl (BaseException b) \<Rightarrow>
                out = UnhandledBase b \<and> fs s' = (fs s)(tp \<mapsto> File (content up)))"
    and "\<forall>body. out = Return body \<longrightarrow> new_events s s' = try_events tp (content up) name"
proof -
  have ne: "tp \<noteq> []" using assms(5) by simp
  obtain r s1 where tr: "analyze_xray_try svc w up name tp s = (r, s1)"
    by (cases "analyze_xray_try svc w up name tp s") auto
  have run: "(case r of
          Inr body \<Rightarrow> (Return body, s1)
        | Inl (BaseException b) \<Rightarrow> (UnhandledBase b, s1)
        | Inl (Exception e) \<Rightarrow>
            (case unlink_if_exists w tp s1 of
               (Inl e', s2) \<Rightarrow> (Unhandled e', s2)
             | (Inr u, s2) \<Rightarrow> (HTTPException 500 (''Analysis Error: '' @ str_exc e), s2)))
      = (out, s')"
    using assms(6) tr unfolding assms(5) by (simp add: analyze_xray_def Let_def assms(1-4))
  let ?F = "(fs s)(tp \<mapsto> File (content up))"
  let ?T3 = "[OpenWb tp, WriteBytes tp (content up), AnalyzeCall (content up) name]"
  let ?goal = "\<lambda>evs. trace s' = trace s @ evs"
  have all: "(\<exists>evs. trace s' = trace s @ evs \<and> set evs \<subseteq> set (try_events tp (content up) name))
    \<and> (\<forall>q. q \<noteq> tp \<longrightarrow> fs s' q = fs s q)
    \<and> (AnalyzeCall (content up) name \<notin> set (new_events s s') \<longrightarrow>
           (\<exists>d. out = HTTPException 500 d \<and> fs s' tp = None)
         \<or> (\<exists>e. out = Unhandled e
               \<and> ((\<exists>t. exists_raises w t = Some e) \<or> (\<exists>t. unlink_raises w t = Some e)
                    \<or> e = is_a_directory tp)))
    \<and> (AnalyzeCall (content up) name \<in> set (new_events s s') \<longrightarrow>
           (case svc ?F (content up) name of
              Inr result \<Rightarrow>
                (out = Return (JObj [(''success'', JBool True), (''result'', JResult result),
                                     (''timestamp'', JStr (isoformat (now w 0)))])
                   \<and> fs s' = (fs s)(tp := None))
                \<or> (\<exists>e. ((\<exists>t. exists_raises w t = Some e) \<or> (\<exists>t. unlink_raises w t = Some e))
                      \<and> out = HTTPException 500 (''Analysis Error: '' @ str_exc e)
                      \<and> fs s' = (fs s)(tp := None))
                \<or> (\<exists>e. ((\<exists>t. exists_raises w t = Some e) \<or> (\<exists>t. unlink_raises w t = Some e))
                      \<and> out = Unhandled e
                      \<and> fs s' = ?F)
            | Inl (Exception e) \<Rightarrow>
                (out = HTTPException 500 (''Analysis Error: '' @ str_exc e)
                   \<and> fs s' = (fs s)(tp := None))
                \<or> (\<exists>e'. ((\<exists>t. exists_raises w t = Some e')
                            \<or> (\<exists>t. unlink_raises w t = Some e'))
                      \<and> out = Unhandled e'
                      \<and> fs s' = ?F)
            | Inl (BaseException b) \<Rightarrow> out = UnhandledBase b \<and> fs s' = ?F))
    \<and> (\<forall>body. out = Return body \<longrightarrow> new_events s s' = try_events tp (content up) name)"
  proof -
    from analyze_xray_try_cases [OF tr ne] consider
      (early) e where "r = Inl (Exception e)" "\<forall>q. q \<noteq> tp \<longrightarrow> fs s1 q = fs s q"
        "trace s1 = trace s \<or> trace s1 = trace s @ [OpenWb tp]
          \<or> trace s1 = trace s @ [OpenWb tp, WriteBytes tp (content up)]"
    | (raised) x where "r = Inl x" "svc ?F (content up) name = Inl x" "fs s1 = ?F"
        "trace s1 = trace s @ ?T3"
    | (cleanup) result e where "svc ?F (content up) name = Inr result" "r = Inl (Exception e)"
        "(\<exists>t. exists_raises w t = Some e) \<or> (\<exists>t. unlink_raises w t = Some e)"
        "fs s1 = ?F"
        "trace s1 = trace s
            @ [OpenWb tp, WriteBytes tp (content up), AnalyzeCall (content up) name, Exists tp]
          \<or> trace s1 = trace s
            @ [OpenWb tp, WriteBytes tp (content up), AnalyzeCall (content up) name, Exists tp,
               Unlink tp]"
    | (answered) result where "svc ?F (content up) name = Inr result"
        "r = Inr (JObj [(''success'', JBool True), (''result'', JResult result),
                        (''timestamp'', JStr (isoformat (now w 0)))])"
        "fs s1 = (fs s)(tp := None)"
        "trace s1 = trace s
            @ [OpenWb tp, WriteBytes tp (content up), AnalyzeCall (content up) name, Exists tp,
               Unlink tp]"
      by blast
    then show ?thesis
    proof cases
    case early
    note r = early(1) and fr = early(2) and t = early(3)
    obtain r2 s2 where cl: "unlink_if_exists w tp s1 = (r2, s2)"
      by (cases "unlink_if_exists w tp s1") auto
    note t2 = unlink_if_exists_trace [OF cl]
    show ?thesis
    proof (cases r2)
      case (Inl e')
      with run r cl have o: "out = Unhandled e'" "s' = s2" by auto
      from unlink_if_exists_raises [OF cl [unfolded Inl]] fr o t t2 show ?thesis
        by (auto simp: try_events_def)
    next
      case (Inr u)
      with run r cl have o: "out = HTTPException 500 (''Analysis Error: '' @ str_exc e)" "s' = s2"
        by auto
      from unlink_if_exists_ok [OF cl [unfolded Inr]] fr o t t2 show ?thesis
        by (auto simp: try_events_def)
    qed
  next
    case raised
    note r = raised(1) and sv = raised(2) and f = raised(3) and t = raised(4)
    show ?thesis
    proof (cases x)
      case (BaseException b)
      with run r have "out = UnhandledBase b" "s' = s1" by auto
      with sv BaseException f t show ?thesis
        by (auto simp: try_events_def)
    next
      case (Exception e)
      obtain r2 s2 where cl: "unlink_if_exists w tp s1 = (r2, s2)"
        by (cases "unlink_if_exists w tp s1") auto
      note t2 = unlink_if_exists_trace [OF cl]
      have stf: "fs s1 tp = Some (File (content up))" using f by simp
      show ?thesis
      proof (cases r2)
        case (Inl e')
        with run r Exception cl have o: "out = Unhandled e'" "s' = s2" by auto
        from unlink_if_exists_raises(1) [OF cl [unfolded Inl]]
          unlink_if_exists_raises_file [OF cl [unfolded Inl] stf ne]
          sv Exception f t t2 o
        show ?thesis
          by (auto simp: try_events_def)
      next
        case (Inr u)
        with run r Exception cl
        have o: "out = HTTPException 500 (''Analysis Error: '' @ str_exc e)" "s' = s2"
          by auto
        from unlink_if_exists_ok_fs [OF cl [unfolded Inr]] sv Exception f t t2 o
        show ?thesis
          by (auto simp: try_events_def)
      qed
    qed
  next
    case cleanup
    note sv = cleanup(1) and r = cleanup(2) and fe = cleanup(3) and f = cleanup(4)
      and t = cleanup(5)
    obtain r2 s2 where cl: "unlink_if_exists w tp s1 = (r2, s2)"
      by (cases "unlink_if_exists w tp s1") auto
    note t2 = unlink_if_exists_trace [OF cl]
    have stf: "fs s1 tp = Some (File (content up))" using f by simp
    show ?thesis
    proof (cases r2)
      case (Inl e')
      with run r cl have o: "out = Unhandled e'" "s' = s2" by auto
      from unlink_if_exists_raises(1) [OF cl [unfolded Inl]]
        unlink_if_exists_raises_file [OF cl [unfolded Inl] stf ne]
        sv f t t2 o
      show ?thesis
        by (auto simp: try_events_def)
    next
      case (Inr u)
      with run r cl
      have o: "out = HTTPException 500 (''Analysis Error: '' @ str_exc e)" "s' = s2"
        by auto
      from unlink_if_exists_ok_fs [OF cl [unfolded Inr]] sv fe f t t2 o
      show ?thesis
        by (auto simp: try_events_def)
    qed
  next
    case answered
    note sv = answered(1) and r = answered(2) and f = answered(3) and t = answered(4)
    from run r have "out = Return (JObj [(''success'', JBool True), (''result'', JResult result),
                            (''timestamp'', JStr (isoformat (now w 0)))])" "s' = s1"
      by auto
    with sv f t show ?thesis
      by (auto simp: try_events_def)
  qed
  qed
  from all show "\<exists>evs. trace s' = trace s @ evs \<and> set evs \<subseteq> set (try_events tp (content up) name)"
    by blast
  from all show "\<forall>q. q \<noteq> tp \<longrightarrow> fs s' q = fs s q"
    by blast
  from all show "AnalyzeCall (content up) name \<notin> set (new_events s s') \<longrightarrow>
           (\<exists>d. out = HTTPException 500 d \<and> fs s' tp = None)
         \<or> (\<exists>e. out = Unhandled e
               \<and> ((\<exists>t. exists_raises w t = Some e) \<or> (\<exists>t. unlink_raises w t = Some e)
                    \<or> e = is_a_directory tp))"
    by blast
  from all show "AnalyzeCall (content up) name \<in> set (new_events s s') \<longrightarrow>
           (case svc ((fs s)(tp \<mapsto> File (content up))) (content up) name of
              Inr result \<Rightarrow>
                (out = Return (JObj [(''success'', JBool True), (''result'', JResult result),
                                     (''timestamp'', JStr (isoformat (now w 0)))])
                   \<and> fs s' = (fs s)(tp := None))
                \<or> (\<exists>e. ((\<exists>t. exists_raises w t = Some e) \<or> (\<exists>t. unlink_raises w t = Some e))
                      \<and> out = HTTPException 500 (''Analysis Error: '' @ str_exc e)
                      \<and> fs s' = (fs s)(tp := None))
                \<or> (\<exists>e. ((\<exists>t. exists_raises w t = Some e) \<or> (\<exists>t. unlink_raises w t = Some e))
                      \<and> out = Unhandled e
                      \<and> fs s' = (fs s)(tp \<mapsto> File (content up)))
            | Inl (Exception e) \<Rightarrow>
                (out = HTTPException 500 (''Analysis Error: '' @ str_exc e)
                   \<and> fs s' = (fs s)(tp := None))
                \<or> (\<exists>e'. ((\<exists>t. exists_raises w t = Some e')
                            \<or> (\<exists>t. unlink_raises w t = Some e'))
                      \<and> out = Unhandled e'
                      \<and> fs s' = (fs s)(tp \<mapsto> File (content up)))
            | Inl (BaseException b) \<Rightarrow>
                out = UnhandledBase b \<and> fs s' = (fs s)(tp \<mapsto> File (content up)))"
    by blast
  from all show "\<forall>body. out = Return body \<longrightarrow> new_events s s' = try_events tp (content up) name"
    by blast
qed

lemmas analyze_eval =
  analyze_xray_def analyze_xray_try_def unlink_if_exists_def Let_def
  suffix_chest_png demo_isoformat demo_ready_state_eq demo_temp_path_def
  demo_world_def demo_image_def demo_module_file_def demo_fs_def
  startswith_def dir_defs fs_defs




lemma demo_analyze_checking:
  "fst (analyze_xray demo_checking_app demo_world demo_ready_state (demo_image\<lparr>offset := 4\<rparr>))
     = Return (JObj [(''success'', JBool True), (''result'', JResult ''Chest.PNG''),
                     (''timestamp'', JStr ''2024-01-02T03:04:05'')])"
  by (simp add: analyze_eval demo_checking_app_def demo_checking_service_def)




text \<open>
  C10. In a request to \<^verbatim>\<open>/api/xray/analyze\<close> that reaches the \<^verbatim>\<open>try\<close>, every
  write goes to the staging path and carries the whole content of the uploaded stream,
  read from offset 0 wherever the stream stood, and every call of the service carries
  that content and the declared filename, not the staging name. When the service is
  called, the file system it sees is the one before the request with the staging file
  holding exactly that content, and how the request ends is what the service answers
  there: its result in the answer, its \<^verbatim>\<open>Exception\<close> in the 500, anything else it
  raises out of the handler with the staging file still holding the content. A request
  that ends in the answer has opened the staging file, written the content, called the
  service and deleted the file, in this order and nothing else.
\<close>

theorem same_bytes_staged_and_analyzed:
  assumes "xray_service app = Some svc"
    and "content_type up = Some ct" and "startswith ct ''image/''"
    and "filename up = Some name"
    and "tp = XRAY_TEMP_DIR (module_file app) @ [uuid4 w @ lower (path_suffix name)]"
    and "analyze_xray app w s up = (out, s')"
  shows "trace s' = trace s @ new_events s s'
       \<and> (\<forall>p b. WriteBytes p b \<in> set (new_events s s') \<longrightarrow> p = tp \<and> b = content up)
       \<and> (\<forall>b n. AnalyzeCall b n \<in> set (new_events s s') \<longrightarrow> b = content up \<and> n = name)
       \<and> (AnalyzeCall (content up) name \<in> set (new_events s s') \<longrightarrow>
             (case svc ((fs s)(tp \<mapsto> File (content up))) (content up) name of
                Inr result \<Rightarrow>
                  (out = Return (JObj [(''success'', JBool True), (''result'', JResult result),
                                       (''timestamp'', JStr (isoformat (now w 0)))])
                     \<and> fs s' = (fs s)(tp := None))
                  \<or> (\<exists>e. ((\<exists>t. exists_raises w t = Some e) \<or> (\<exists>t. unlink_raises w t = Some e))
                        \<and> out = HTTPException 500 (''Analysis Error: '' @ str_exc e)
                        \<and> fs s' = (fs s)(tp := None))
                  \<or> (\<exists>e. ((\<exists>t. exists_raises w t = Some e) \<or> (\<exists>t. unlink_raises w t = Some e))
                        \<and> out = Unhandled e
                        \<and> fs s' = (fs s)(tp \<mapsto> File (content up)))
              | Inl (Exception e) \<Rightarrow>
                  (out = HTTPException 500 (''Analysis Error: '' @ str_exc e)
                     \<and> fs s' = (fs s)(tp := None))
                  \<or> (\<exists>e'. ((\<exists>t. exists_raises w t = Some e')
                              \<or> (\<exists>t. unlink_raises w t = Some e'))
                        \<and> out = Unhandled e'
                        \<and> fs s' = (fs s)(tp \<mapsto> File (content up)))
              | Inl (BaseException b) \<Rightarrow>
                  out = UnhandledBase b \<and> fs s' = (fs s)(tp \<mapsto> File (content up))))
       \<and> (\<forall>body. out = Return body \<longrightarrow>
             new_events s s' =
               [OpenWb tp, WriteBytes tp (content up), AnalyzeCall (content up) name,
                Exists tp, Unlink tp]
             \<and> (\<exists>result.
                   svc ((fs s)(tp \<mapsto> File (content up))) (content up) name = Inr result
                   \<and> body = JObj [(''success'', JBool True), (''result'', JResult result),
                                  (''timestamp'', JStr (isoformat (now w 0)))]))"
proof -
  note c = analyze_xray_cases [OF assms]
  from c(1) obtain evs where evs: "trace s' = trace s @ evs"
    "set evs \<subseteq> set (try_events tp (content up) name)"
    by blast
  then have ne: "new_events s s' = evs" by simp
  have 1: "trace s' = trace s @ new_events s s'"
    using evs ne by simp
  have 2: "\<forall>p b. WriteBytes p b \<in> set (new_events s s') \<longrightarrow> p = tp \<and> b = content up"
    and 3: "\<forall>b n. AnalyzeCall b n \<in> set (new_events s s') \<longrightarrow> b = content up \<and> n = name"
    using evs(2) ne by (auto simp: try_events_def)
  have 5: "\<forall>body. out = Return body \<longrightarrow>
             new_events s s' =
               [OpenWb tp, WriteBytes tp (content up), AnalyzeCall (content up) name,
                Exists tp, Unlink tp]
             \<and> (\<exists>result.
                   svc ((fs s)(tp \<mapsto> File (content up))) (content up) name = Inr result
                   \<and> body = JObj [(''success'', JBool True), (''result'', JResult result),
                                  (''timestamp'', JStr (isoformat (now w 0)))])"
  proof (intro allI impI)
    fix body assume ret: "out = Return body"
    with c(5) have e5: "new_events s s' = try_events tp (content up) name" by blast
    then have "AnalyzeCall (content up) name \<in> set (new_events s s')"
      by (simp add: try_events_def)
    with c(4) ret have "\<exists>result.
        svc ((fs s)(tp \<mapsto> File (content up))) (content up) name = Inr result
        \<and> body = JObj [(''success'', JBool True), (''result'', JResult result),
                       (''timestamp'', JStr (isoformat (now w 0)))]"
      by (auto split: sum.splits raised.splits)
    with e5 show "new_events s s' =
               [OpenWb tp, WriteBytes tp (content up), AnalyzeCall (content up) name,
                Exists tp, Unlink tp]
             \<and> (\<exists>result.
                   svc ((fs s)(tp \<mapsto> File (content up))) (content up) name = Inr result
                   \<and> body = JObj [(''success'', JBool True), (''result'', JResult result),
                                  (''timestamp'', JStr (isoformat (now w 0)))])"
      by (simp add: try_events_def)
  qed
  from 1 2 3 c(4) 5 show ?thesis by blast
qed

theorem same_bytes_staged_and_analyzed_witness:
  "xray_service demo_checking_app = Some demo_checking_service
   \<and> content_type (demo_image\<lparr>offset := 4\<rparr>) = Some ''image/png''
   \<and> startswith ''image/png'' ''image/''
   \<and> filename (demo_image\<lparr>offset := 4\<rparr>) = Some ''Chest.PNG''
   \<and> demo_temp_path = XRAY_TEMP_DIR (module_file demo_checking_app)
        @ [uuid4 demo_world @ lower (path_suffix ''Chest.PNG'')]
   \<and> fst (analyze_xray demo_checking_app demo_world demo_ready_state (demo_image\<lparr>offset := 4\<rparr>))
       = Return (JObj [(''success'', JBool True), (''result'', JResult ''Chest.PNG''),
                       (''timestamp'', JStr ''2024-01-02T03:04:05'')])
   \<and> demo_checking_service ((fs demo_ready_state)(demo_temp_path \<mapsto> File [137, 80, 78, 71]))
        [137, 80, 78, 71] ''Chest.PNG'' = Inr ''Chest.PNG''
   \<and> new_events demo_ready_state
        (snd (analyze_xray demo_checking_app demo_world demo_ready_state
                (demo_image\<lparr>offset := 4\<rparr>)))
       = [OpenWb demo_temp_path, WriteBytes demo_temp_path [137, 80, 78, 71],
          AnalyzeCall [137, 80, 78, 71] ''Chest.PNG'', Exists demo_temp_path,
          Unlink demo_temp_path]"
proof -
  let ?up = "demo_image\<lparr>offset := 4\<rparr>"
  have h1: "xray_service demo_checking_app = Some demo_checking_service"
    by (simp add: demo_checking_app_def)
  have h2: "content_type ?up = Some ''image/png''"
    by (simp add: demo_image_def)
  have h3: "startswith ''image/png'' ''image/''"
    by (simp add: startswith_def)
  have h4: "filename ?up = Some ''Chest.PNG''"
    by (simp add: demo_image_def)
  have h5: "demo_temp_path = XRAY_TEMP_DIR (module_file demo_checking_app)
        @ [uuid4 demo_world @ lower (path_suffix ''Chest.PNG'')]"
    by (simp add: suffix_chest_png dir_defs demo_checking_app_def demo_module_file_def
        demo_world_def demo_temp_path_def)
  have h6: "analyze_xray demo_checking_app demo_world demo_ready_state ?up
      = (fst (analyze_xray demo_checking_app demo_world demo_ready_state ?up),
         snd (analyze_xray demo_checking_app demo_world demo_ready_state ?up))"
    by simp
  have c: "content ?up = [137, 80, 78, 71]"
    by (simp add: demo_image_def)
  note r = demo_analyze_checking
  from same_bytes_staged_and_analyzed [OF h1 h2 h3 h4 h5 h6] r
  have "new_events demo_ready_state (snd (analyze_xray demo_checking_app demo_world
            demo_ready_state ?up))
      = [OpenWb demo_temp_path, WriteBytes demo_temp_path (content ?up),
         AnalyzeCall (content ?up) ''Chest.PNG'', Exists demo_temp_path, Unlink demo_temp_path]
    \<and> (\<exists>result. demo_checking_service
           ((fs demo_ready_state)(demo_temp_path \<mapsto> File (content ?up))) (content ?up)
           ''Chest.PNG'' = Inr result
         \<and> JObj [(''success'', JBool True), (''result'', JResult ''Chest.PNG''),
                 (''timestamp'', JStr ''2024-01-02T03:04:05'')]
           = JObj [(''success'', JBool True), (''result'', JResult result),
                   (''timestamp'', JStr (isoformat (now demo_world 0)))])"
    by blast
  then have "new_events demo_ready_state (snd (analyze_xray demo_checking_app demo_world
            demo_ready_state ?up))
      = [OpenWb demo_temp_path, WriteBytes demo_temp_path [137, 80, 78, 71],
         AnalyzeCall [137, 80, 78, 71] ''Chest.PNG'', Exists demo_temp_path, Unlink demo_temp_path]"
    and "demo_checking_service
           ((fs demo_ready_state)(demo_temp_path \<mapsto> File [137, 80, 78, 71])) [137, 80, 78, 71]
           ''Chest.PNG'' = Inr ''Chest.PNG''"
    unfolding c by auto
  with h1 h2 h3 h4 h5 r show ?thesis by blast
qed

subsection \<open>The archival upload\<close>

text \<open>
  C7. When the destination of \<^verbatim>\<open>/api/ecg/upload\<close> was opened and the copy raises
  after \<open>n\<close> bytes, the handler raises the 500 whose detail is
  \<^verbatim>\<open>Upload Error:\<close> and the text of the exception, the destination holds the
  first \<open>n\<close> bytes of what was to be copied, and the request has made no call but
  the open and the write: nothing deletes the incomplete file.
\<close>

theorem ecg_partial_copy_left_in_place:
  assumes "filename up = Some name"
    and "lower (path_suffix name) \<in> {''.png'', ''.jpg'', ''.jpeg'', ''.pdf''}"
    and "save_path = ECG_DIR (module_file app)
           @ [''ecg_'' @ strftime_Ymd_HMS (now w 0) @ ''_'' @ uuid4 w @ lower (path_suffix name)]"
    and "open_wb w save_path s = (Inr (), s1)"
    and "write_raises w = Some (n, e)"
  shows "fst (upload_ecg app w s up) = HTTPException 500 (''Upload Error: '' @ str_exc e)
       \<and> fs (snd (upload_ecg app w s up)) save_path
           = Some (File (take n (drop (offset up) (content up))))
       \<and> new_events s (snd (upload_ecg app w s up))
           = [OpenWb save_path, WriteBytes save_path (drop (offset up) (content up))]"
proof -
  have t1: "trace s1 = trace s @ [OpenWb save_path]"
    using open_wb_trace assms(4) by blast
  have "upload_ecg app w s up =
          (HTTPException 500 (''Upload Error: '' @ str_exc e),
           (record_event (WriteBytes save_path (drop (offset up) (content up))) s1)
             \<lparr>fs := (fs s1)(save_path \<mapsto> File (take n (drop (offset up) (content up))))\<rparr>)"
    using assms
    by (simp add: upload_ecg_def allowed_extensions_def Let_def upload_ecg_try_def
        copyfileobj_def write_bytes_def)
  then show ?thesis
    using t1 by simp
qed

theorem ecg_partial_copy_left_in_place_witness:
  "filename demo_scan = Some ''ECG 01.PDF''
   \<and> lower (path_suffix ''ECG 01.PDF'') \<in> {''.png'', ''.jpg'', ''.jpeg'', ''.pdf''}
   \<and> demo_save_path = ECG_DIR (module_file demo_app)
        @ [''ecg_'' @ strftime_Ymd_HMS (now demo_disk_full_world 0) @ ''_''
           @ uuid4 demo_disk_full_world @ lower (path_suffix ''ECG 01.PDF'')]
   \<and> fst (open_wb demo_disk_full_world demo_save_path demo_ready_state) = Inr ()
   \<and> write_raises demo_disk_full_world = Some (2, demo_disk_full)
   \<and> fst (upload_ecg demo_app demo_disk_full_world demo_ready_state demo_scan)
        = HTTPException 500 ''Upload Error: [Errno 28] No space left on device''
   \<and> fs (snd (upload_ecg demo_app demo_disk_full_world demo_ready_state demo_scan)) demo_save_path
        = Some (File [37, 80])
   \<and> new_events demo_ready_state
        (snd (upload_ecg demo_app demo_disk_full_world demo_ready_state demo_scan))
        = [OpenWb demo_save_path, WriteBytes demo_save_path [37, 80, 68, 70, 45]]"
proof -
  have h1: "filename demo_scan = Some ''ECG 01.PDF''"
    by (simp add: demo_scan_def)
  have h2: "lower (path_suffix ''ECG 01.PDF'') \<in> {''.png'', ''.jpg'', ''.jpeg'', ''.pdf''}"
    by (simp add: suffix_ecg_pdf)
  have h3: "demo_save_path = ECG_DIR (module_file demo_app)
        @ [''ecg_'' @ strftime_Ymd_HMS (now demo_disk_full_world 0) @ ''_''
           @ uuid4 demo_disk_full_world @ lower (path_suffix ''ECG 01.PDF'')]"
    by (simp add: suffix_ecg_pdf demo_timestamp demo_save_path_def dir_defs demo_app_def
        demo_module_file_def demo_disk_full_world_def demo_world_def)
  have h4: "open_wb demo_disk_full_world demo_save_path demo_ready_state
      = (Inr (), snd (open_wb demo_disk_full_world demo_save_path demo_ready_state))"
    by (simp add: open_wb_def lookup_def Let_def demo_disk_full_world_def demo_world_def
        demo_save_path_def demo_ready_state_eq demo_fs_def)
  have h5: "write_raises demo_disk_full_world = Some (2, demo_disk_full)"
    by (simp add: demo_disk_full_world_def)
  have h4': "fst (open_wb demo_disk_full_world demo_save_path demo_ready_state) = Inr ()"
    using h4 by (metis fst_conv)
  have cs: "content demo_scan = [37, 80, 68, 70, 45]" "offset demo_scan = 0"
    by (simp_all add: demo_scan_def)
  have "fst (upload_ecg demo_app demo_disk_full_world demo_ready_state demo_scan)
        = HTTPException 500 ''Upload Error: [Errno 28] No space left on device''
   \<and> fs (snd (upload_ecg demo_app demo_disk_full_world demo_ready_state demo_scan)) demo_save_path
        = Some (File [37, 80])
   \<and> new_events demo_ready_state
        (snd (upload_ecg demo_app demo_disk_full_world demo_ready_state demo_scan))
        = [OpenWb demo_save_path, WriteBytes demo_save_path [37, 80, 68, 70, 45]]"
    using ecg_partial_copy_left_in_place [OF h1 h2 h3 h4 h5]
    by (simp add: cs demo_disk_full_def)
  with h1 h2 h3 h4' h5 show ?thesis by blast
qed

text \<open>The timestamp of a date with a four-digit year: eight digits, \<^verbatim>\<open>_\<close>, six digits.\<close>

lemma isdigit_digit_char: "d < 10 \<Longrightarrow> isdigit (digit_char d)"
proof -
  assume "d < 10"
  then consider "d = 0" | "d = 1" | "d = 2" | "d = 3" | "d = 4" | "d = 5" | "d = 6" | "d = 7"
    | "d = 8" | "d = 9"
    by atomize_elim presburger
  then show ?thesis
    by cases (simp_all add: isdigit_def digit_char_def)
qed

lemma isdigit_str_nat: "list_all isdigit (str_nat n)"
proof (induction n rule: str_nat.induct)
  case (1 n)
  show ?case
  proof (cases "n < 10")
    case True
    then show ?thesis by (simp add: str_nat.simps [of n] isdigit_digit_char)
  next
    case False
    with 1 show ?thesis by (simp add: str_nat.simps [of n] isdigit_digit_char)
  qed
qed

lemma length_str_nat: "n < 10 ^ Suc k \<Longrightarrow> length (str_nat n) \<le> Suc k"
proof (induction k arbitrary: n)
  case 0
  then show ?case by (simp add: str_nat.simps [of n])
next
  case (Suc k)
  show ?case
  proof (cases "n < 10")
    case True
    then show ?thesis by (simp add: str_nat.simps [of n])
  next
    case False
    from Suc.prems have "n div 10 < 10 ^ Suc k" by (simp add: less_mult_imp_div_less)
    from Suc.IH [OF this] False show ?thesis by (simp add: str_nat.simps [of n])
  qed
qed

lemma zfill_digits:
  assumes "n < 10 ^ Suc k"
  shows "length (zfill (Suc k) (str_nat n)) = Suc k"
    and "list_all isdigit (zfill (Suc k) (str_nat n))"
proof -
  show "length (zfill (Suc k) (str_nat n)) = Suc k"
    using length_str_nat [OF assms] by (simp add: zfill_def)
  have "isdigit CHR ''0''"
    by (simp add: isdigit_def)
  then show "list_all isdigit (zfill (Suc k) (str_nat n))"
    using isdigit_str_nat [of n] by (auto simp: zfill_def list_all_iff)
qed

lemma strftime_format:
  assumes "valid_datetime dt"
  shows "\<exists>d t. strftime_Ymd_HMS dt = d @ ''_'' @ t \<and> length d = 8 \<and> length t = 6
           \<and> list_all isdigit d \<and> list_all isdigit t"
proof -
  have y: "year dt < 10 ^ Suc 3" and m: "month dt < 10 ^ Suc 1" and d: "day dt < 10 ^ Suc 1"
    and H: "hour dt < 10 ^ Suc 1" and M: "minute dt < 10 ^ Suc 1" and S: "second dt < 10 ^ Suc 1"
    using assms by (simp_all add: valid_datetime_def)
  let ?d = "zfill 4 (str_nat (year dt)) @ zfill 2 (str_nat (month dt)) @ zfill 2 (str_nat (day dt))"
  let ?t = "zfill 2 (str_nat (hour dt)) @ zfill 2 (str_nat (minute dt)) @ zfill 2 (str_nat (second dt))"
  have "strftime_Ymd_HMS dt = ?d @ ''_'' @ ?t"
    by (simp add: strftime_Ymd_HMS_def)
  moreover have "length ?d = 8" "list_all isdigit ?d"
    using zfill_digits [OF y] zfill_digits [OF m] zfill_digits [OF d]
    by (simp_all add: eval_nat_numeral)
  moreover have "length ?t = 6" "list_all isdigit ?t"
    using zfill_digits [OF H] zfill_digits [OF M] zfill_digits [OF S]
    by (simp_all add: eval_nat_numeral)
  ultimately show ?thesis by blast
qed

lemma ecg_filename_formatI:
  assumes "length d = 8" "length t = 6" "list_all isdigit d" "list_all isdigit t"
  shows "ecg_filename_format file_id ext (''ecg_'' @ (d @ ''_'' @ t) @ ''_'' @ file_id @ ext)"
  using assms by (simp add: ecg_filename_format_def)

text \<open>Rounding to hundredths moves a number by half a hundredth at most.\<close>

lemma round_half_even_close: "\<bar>of_int (round_half_even y) - y\<bar> \<le> 1 / 2"
proof -
  define f where "f = \<lfloor>y\<rfloor>"
  have b: "of_int f \<le> y" "y < of_int f + 1"
    unfolding f_def by linarith+
  have r: "round_half_even y =
      (if y - of_int f < 1 / 2 then f
       else if 1 / 2 < y - of_int f then f + 1 else if even f then f else f + 1)"
    by (simp add: round_half_even_def Let_def f_def)
  consider "y - of_int f < 1 / 2" | "1 / 2 < y - of_int f" | "y - of_int f = 1 / 2"
    by linarith
  then show ?thesis
  proof cases
    case 1
    then have "round_half_even y = f" by (simp add: r)
    with 1 b show ?thesis by simp
  next
    case 2
    then have "round_half_even y = f + 1" by (simp add: r)
    with 2 b show ?thesis by simp
  next
    case 3
    then have "round_half_even y = f \<or> round_half_even y = f + 1" by (simp add: r)
    with 3 show ?thesis by auto
  qed
qed

lemma py_round2_close: "\<bar>py_round2 x - x\<bar> \<le> 1 / 200"
proof -
  have e: "py_round2 x - x = (of_int (round_half_even (x * 100)) - x * 100) / 100"
    by (simp add: py_round2_def diff_divide_distrib)
  have "\<bar>py_round2 x - x\<bar> = \<bar>of_int (round_half_even (x * 100)) - x * 100\<bar> / 100"
    unfolding e by (simp add: abs_divide)
  also have "\<dots> \<le> (1 / 2) / 100"
    using round_half_even_close [of "x * 100"] by (simp add: divide_right_mono)
  finally show ?thesis by simp
qed

lemma upload_ecg_try_ok:
  assumes "upload_ecg_try w up fname sp s = (Inr body, s')" and "sp \<noteq> []"
  shows "fs s' sp = Some (File (drop (offset up) (content up)))"
    and "body = JObj [(''success'', JBool True),
                      (''message'', JStr ''ECG uploaded successfully''),
                      (''file_info'', JObj
                         [(''filename'', JStr fname),
                          (''path'', JStr (''uploads/ecg/'' @ fname)),
                          (''size_mb'', JNum (py_round2
                             (of_nat (length (drop (offset up) (content up))) / (1024 * 1024)))),
                          (''timestamp'', JStr (isoformat (now w 1)))])]"
proof -
  obtain r1 s1 where o: "open_wb w sp s = (r1, s1)" by (cases "open_wb w sp s") auto
  obtain r2 s2 where c: "copyfileobj w up sp s1 = (r2, s2)"
    by (cases "copyfileobj w up sp s1") auto
  obtain r3 s3 where st: "stat_size w sp s2 = (r3, s3)" by (cases "stat_size w sp s2") auto
  from assms(1) o c st have ok: "r1 = Inr ()" "r2 = Inr ()" and s3: "s' = s3"
    and body: "\<exists>n. r3 = Inr n \<and> body = JObj [(''success'', JBool True),
                      (''message'', JStr ''ECG uploaded successfully''),
                      (''file_info'', JObj
                         [(''filename'', JStr fname),
                          (''path'', JStr (''uploads/ecg/'' @ fname)),
                          (''size_mb'', JNum (py_round2 (of_nat n / (1024 * 1024)))),
                          (''timestamp'', JStr (isoformat (now w 1)))])]"
    by (auto simp: upload_ecg_try_def split: sum.splits)
  from c ok have f2: "fs s2 sp = Some (File (drop (offset up) (content up)))"
    by (auto simp: copyfileobj_def write_bytes_def Let_def split: option.splits)
  from st f2 assms(2) have "fs s3 sp = fs s2 sp"
    and "r3 = Inr (length (drop (offset up) (content up)))"
    by (auto simp: stat_size_def Let_def lookup_def)
  with f2 s3 body
  show "fs s' sp = Some (File (drop (offset up) (content up)))"
    and "body = JObj [(''success'', JBool True),
                      (''message'', JStr ''ECG uploaded successfully''),
                      (''file_info'', JObj
                         [(''filename'', JStr fname),
                          (''path'', JStr (''uploads/ecg/'' @ fname)),
                          (''size_mb'', JNum (py_round2
                             (of_nat (length (drop (offset up) (content up))) / (1024 * 1024)))),
                          (''timestamp'', JStr (isoformat (now w 1)))])]"
    by auto
qed

text \<open>
  C2, as stated, fails on the filename: the timestamp is \<^verbatim>\<open>%Y%m%d_%H%M%S\<close>, eight
  digits, an underscore and six digits, so the stored name is not \<^verbatim>\<open>ecg_\<close>, fourteen
  digits, \<^verbatim>\<open>_\<close>, the id and the extension.
\<close>

theorem ecg_filename_14_digits_counterexample:
  "fst (upload_ecg demo_app demo_world demo_ready_state demo_scan) = Return demo_upload_answer
   \<and> jget demo_upload_answer ''file_info'' = Some demo_file_info
   \<and> jget demo_file_info ''filename'' = Some (JStr demo_stored_name)
   \<and> \<not> spec_ecg_filename (uuid4 demo_world) ''.pdf'' demo_stored_name"
  by (simp add: demo_upload)
     (simp add: demo_upload_answer_def demo_file_info_def jget_def spec_ecg_filename_def
        demo_stored_name_def isdigit_def demo_world_def)

text \<open>
  C2, amended. A request to \<^verbatim>\<open>/api/ecg/upload\<close> that ends in the answer (at a
  date of a year with four digits) returns a filename of the form
  \<^verbatim>\<open>ecg_<8 digits>_<6 digits>_<id><ext>\<close>, with \<^verbatim>\<open>ext\<close> the lowercased extension
  of the declared filename, one of the four allowed; the returned path is
  \<^verbatim>\<open>uploads/ecg/\<close> and the filename; the file at that path below the module's
  directory holds what the stream held from its offset on; and \<^verbatim>\<open>size_mb\<close> is the
  size of that file in MiB rounded to hundredths (a whole number of hundredths, at
  most half a hundredth away).
\<close>

theorem ecg_upload_success:
  assumes "upload_ecg app w s up = (Return body, s')"
    and "valid_datetime (now w 0)"
  shows "\<exists>name fname info data.
           filename up = Some name
         \<and> lower (path_suffix name) \<in> {''.png'', ''.jpg'', ''.jpeg'', ''.pdf''}
         \<and> jget body ''file_info'' = Some info
         \<and> jget info ''filename'' = Some (JStr fname)
         \<and> ecg_filename_format (uuid4 w) (lower (path_suffix name)) fname
         \<and> jget info ''path'' = Some (JStr (''uploads/ecg/'' @ fname))
         \<and> fs s' (BASE_DIR (module_file app) @ [''uploads'', ''ecg'', fname]) = Some (File data)
         \<and> data = drop (offset up) (content up)
         \<and> jget info ''size_mb''
             = Some (JNum (py_round2 (of_nat (length data) / (1024 * 1024))))
         \<and> \<bar>py_round2 (of_nat (length data) / (1024 * 1024))
              - of_nat (length data) / (1024 * 1024)\<bar> \<le> 1 / 200
         \<and> (\<exists>k::int. py_round2 (of_nat (length data) / (1024 * 1024)) = of_int k / 100)"
proof -
  from assms(1) obtain name where name: "filename up = Some name"
    by (cases "filename up") (auto simp: upload_ecg_def)
  define ext where "ext = lower (path_suffix name)"
  from assms(1) name have ext: "ext \<in> {''.png'', ''.jpg'', ''.jpeg'', ''.pdf''}"
    by (auto simp: upload_ecg_def ext_def allowed_extensions_def Let_def split: if_splits)
  define fname where "fname = ''ecg_'' @ strftime_Ymd_HMS (now w 0) @ ''_'' @ uuid4 w @ ext"
  define sp where "sp = ECG_DIR (module_file app) @ [fname]"
  define data where "data = drop (offset up) (content up)"
  define info where "info = (JObj
         [(''filename'', JStr fname),
          (''path'', JStr (''uploads/ecg/'' @ fname)),
          (''size_mb'', JNum (py_round2 (of_nat (length data) / (1024 * 1024)))),
          (''timestamp'', JStr (isoformat (now w 1)))] :: 'a json)"
  from assms(1) name ext have tr: "upload_ecg_try w up fname sp s = (Inr body, s')"
    by (auto simp: upload_ecg_def ext_def allowed_extensions_def Let_def fname_def sp_def
        split: if_splits sum.splits prod.splits)
  have "sp \<noteq> []" by (simp add: sp_def)
  note res = upload_ecg_try_ok [OF tr this]
  have sp': "sp = BASE_DIR (module_file app) @ [''uploads'', ''ecg'', fname]"
    by (simp add: sp_def dir_defs)
  from strftime_format [OF assms(2)] obtain d t where
    "strftime_Ymd_HMS (now w 0) = d @ ''_'' @ t" "length d = 8" "length t = 6"
    "list_all isdigit d" "list_all isdigit t"
    by blast
  then have fmt: "ecg_filename_format (uuid4 w) ext fname"
    using ecg_filename_formatI [of d t "uuid4 w" ext] by (simp add: fname_def)
  have j1: "jget body ''file_info'' = Some info"
    by (simp add: res(2) jget_def info_def data_def)
  have j2: "jget info ''filename'' = Some (JStr fname)"
    and j3: "jget info ''path'' = Some (JStr (''uploads/ecg/'' @ fname))"
    and j4: "jget info ''size_mb''
        = Some (JNum (py_round2 (of_nat (length data) / (1024 * 1024))))"
    by (simp_all add: jget_def info_def)
  have f: "fs s' (BASE_DIR (module_file app) @ [''uploads'', ''ecg'', fname]) = Some (File data)"
    using res(1) by (simp add: sp' data_def)
  have k: "\<exists>k::int. py_round2 (of_nat (length data) / (1024 * 1024)) = of_int k / 100"
    by (auto simp: py_round2_def)
  show ?thesis
    using name ext j1 j2 fmt j3 f j4 py_round2_close k
    unfolding ext_def data_def [symmetric]
    by blast
qed

theorem ecg_upload_success_witness:
  "upload_ecg demo_app demo_world demo_ready_state demo_scan
     = (Return demo_upload_answer,
        snd (upload_ecg demo_app demo_world demo_ready_state demo_scan))
   \<and> valid_datetime (now demo_world 0)
   \<and> ecg_filename_format (uuid4 demo_world) ''.pdf'' demo_stored_name
   \<and> fs (snd (upload_ecg demo_app demo_world demo_ready_state demo_scan))
        [''srv'', ''backend'', ''uploads'', ''ecg'', demo_stored_name]
       = Some (File [37, 80, 68, 70, 45])"
proof -
  have h1: "upload_ecg demo_app demo_world demo_ready_state demo_scan
     = (Return demo_upload_answer,
        snd (upload_ecg demo_app demo_world demo_ready_state demo_scan))"
    using demo_upload by (metis prod.collapse)
  have h2: "valid_datetime (now demo_world 0)"
    by (simp add: valid_datetime_def demo_world_def demo_now_def)
  from ecg_upload_success [OF h1 h2] obtain name fname info data where
    r: "filename demo_scan = Some name"
      "jget demo_upload_answer ''file_info'' = Some info"
      "jget info ''filename'' = Some (JStr fname)"
      "ecg_filename_format (uuid4 demo_world) (lower (path_suffix name)) fname"
      "fs (snd (upload_ecg demo_app demo_world demo_ready_state demo_scan))
         (BASE_DIR (module_file demo_app) @ [''uploads'', ''ecg'', fname]) = Some (File data)"
      "data = drop (offset demo_scan) (content demo_scan)"
    by blast
  from r(1) have name: "name = ''ECG 01.PDF''"
    by (simp add: demo_scan_def)
  from r(2) r(3) have fname: "fname = demo_stored_name"
    by (auto simp: demo_upload_answer_def demo_file_info_def jget_def)
  from r(6) have data: "data = [37, 80, 68, 70, 45]"
    by (simp add: demo_scan_def)
  have base: "BASE_DIR (module_file demo_app) = [''srv'', ''backend'']"
    by (simp add: BASE_DIR_def demo_app_def demo_module_file_def)
  from r(4) r(5) have "ecg_filename_format (uuid4 demo_world) ''.pdf'' demo_stored_name"
    and "fs (snd (upload_ecg demo_app demo_world demo_ready_state demo_scan))
        [''srv'', ''backend'', ''uploads'', ''ecg'', demo_stored_name]
       = Some (File [37, 80, 68, 70, 45])"
    by (simp_all add: name fname data base suffix_ecg_pdf)
  with h1 h2 show ?thesis by blast
qed

subsection \<open>The directories\<close>

lemma os_mkdir_cases:
  assumes "os_mkdir p s = (r, s')"
  shows "trace s' = trace s @ [Mkdir p]"
    and "(r = Inr () \<and> lookup (fs s) p = None \<and> lookup (fs s) (butlast p) = Some Dir
            \<and> fs s' = (fs s)(p \<mapsto> Dir))
       \<or> (\<exists>e. r = Inl e \<and> fs s' = fs s
            \<and> (exc_class_of e = FileNotFoundError
                  \<longleftrightarrow> lookup (fs s) p = None \<and> lookup (fs s) (butlast p) = None)
            \<and> (lookup (fs s) p = None \<longrightarrow> lookup (fs s) (butlast p) \<noteq> Some Dir))"
  using assms
  by (auto simp: os_mkdir_def Let_def no_such_file_def file_exists_def not_a_directory_def
      os_error_def split: option.splits node.splits)

lemma is_dir_cases:
  assumes "is_dir p s = (d, s')"
  shows "fs s' = fs s" and "d \<longleftrightarrow> lookup (fs s) p = Some Dir"
  using assms by (auto simp: is_dir_def)

lemma mkdir_ok_is_dir:
  "mkdir p parents exist_ok s = (Inr u, s') \<Longrightarrow> lookup (fs s') p = Some Dir"
proof (induction p parents exist_ok s arbitrary: s' rule: mkdir.induct)
  case (1 p parents exist_ok s)
  obtain r1 s1 where o: "os_mkdir p s = (r1, s1)" by (cases "os_mkdir p s") auto
  note oc = os_mkdir_cases(2) [OF o]
  show ?case
  proof (cases r1)
    case (Inr u1)
    with "1.prems" o oc show ?thesis
      by (auto simp: mkdir.simps [of p] lookup_def)
  next
    case (Inl e)
    show ?thesis
    proof (cases "exc_class_of e = FileNotFoundError")
      case True
      show ?thesis
      proof (cases "\<not> parents \<or> butlast p = p")
        case True
        with "1.prems" o Inl \<open>exc_class_of e = FileNotFoundError\<close> show ?thesis
          by (simp add: mkdir.simps [of p])
      next
        case False
        obtain r2 s2 where m: "mkdir (butlast p) True True s1 = (r2, s2)"
          by (cases "mkdir (butlast p) True True s1") auto
        with "1.prems" o Inl True False obtain u2 where r2: "r2 = Inr u2"
          and m2: "mkdir p False exist_ok s2 = (Inr u, s')"
          by (auto simp: mkdir.simps [of p parents] split: sum.splits)
        from "1.IH"(2) [OF o [symmetric] Inl True False _ _ m2] m r2 show ?thesis
          by simp
      qed
    next
      case False
      obtain d s2 where i: "is_dir p s1 = (d, s2)" by (cases "is_dir p s1") auto
      with "1.prems" o Inl False have "d" "s' = s2"
        by (auto simp: mkdir.simps [of p] split: if_splits)
      with is_dir_cases [OF i] oc Inl show ?thesis by auto
    qed
  qed
qed

lemma mkdir_adds_dirs:
  "mkdir p parents exist_ok s = (r, s') \<Longrightarrow>
     fs s' q = fs s q \<or> (fs s q = None \<and> fs s' q = Some Dir)"
proof (induction p parents exist_ok s arbitrary: r s' rule: mkdir.induct)
  case (1 p parents exist_ok s)
  obtain r1 s1 where o: "os_mkdir p s = (r1, s1)" by (cases "os_mkdir p s") auto
  note oc = os_mkdir_cases(2) [OF o]
  show ?case
  proof (cases r1)
    case (Inr u1)
    with "1.prems" o have "s' = s1" by (simp add: mkdir.simps [of p])
    with oc Inr show ?thesis
      by (auto simp: lookup_def split: if_splits)
  next
    case (Inl e)
    with oc have same: "fs s1 = fs s" by auto
    show ?thesis
    proof (cases "exc_class_of e = FileNotFoundError")
      case True
      show ?thesis
      proof (cases "\<not> parents \<or> butlast p = p")
        case True
        with "1.prems" o Inl \<open>exc_class_of e = FileNotFoundError\<close> have "s' = s1"
          by (simp add: mkdir.simps [of p])
        with same show ?thesis by simp
      next
        case False
        obtain r2 s2 where m: "mkdir (butlast p) True True s1 = (r2, s2)"
          by (cases "mkdir (butlast p) True True s1") auto
        note step1 = "1.IH"(1) [OF o [symmetric] Inl True False m]
        show ?thesis
        proof (cases r2)
          case e2: (Inl e')
          with "1.prems" o Inl True False m have "s' = s2"
            by (simp add: mkdir.simps [of p parents])
          with step1 same show ?thesis by simp
        next
          case (Inr u2)
          with "1.prems" o Inl True False m have m2: "mkdir p False exist_ok s2 = (r, s')"
            by (simp add: mkdir.simps [of p parents])
          from "1.IH"(2) [OF o [symmetric] Inl True False m [symmetric] Inr m2] step1 same
          show ?thesis by auto
        qed
      qed
    next
      case False
      obtain d s2 where i: "is_dir p s1 = (d, s2)" by (cases "is_dir p s1") auto
      with "1.prems" o Inl False have "s' = s2"
        by (auto simp: mkdir.simps [of p] split: if_splits)
      with is_dir_cases(1) [OF i] same show ?thesis by simp
    qed
  qed
qed

lemma mkdir_existing:
  assumes "lookup (fs s) p = Some Dir"
  shows "\<exists>s'. mkdir p parents True s = (Inr (), s') \<and> fs s' = fs s"
proof -
  obtain r1 s1 where o: "os_mkdir p s = (r1, s1)" by (cases "os_mkdir p s") auto
  from os_mkdir_cases(2) [OF o] assms obtain e where
    e: "r1 = Inl e" "fs s1 = fs s" "exc_class_of e \<noteq> FileNotFoundError"
    by auto
  obtain d s2 where i: "is_dir p s1 = (d, s2)" by (cases "is_dir p s1") auto
  from is_dir_cases [OF i] e assms have "d" "fs s2 = fs s" by auto
  with o e i show ?thesis
    by (simp add: mkdir.simps [of p])
qed

lemma mkdir_below_dir:
  assumes "lookup (fs s) (butlast p) = Some Dir" and "\<not> is_file (lookup (fs s) p)"
  shows "\<exists>s'. mkdir p parents True s = (Inr (), s')"
proof (cases "lookup (fs s) p")
  case None
  with assms(1) show ?thesis
    by (simp add: mkdir.simps [of p] os_mkdir_def Let_def)
next
  case (Some n)
  with assms(2) have "lookup (fs s) p = Some Dir"
    by (cases n) (auto simp: is_file_def)
  from mkdir_existing [OF this] show ?thesis by blast
qed

lemma no_file_on_path_iff:
  "no_file_on_path f p \<longleftrightarrow> (\<forall>k\<le>length p. \<not> is_file (lookup f (take k p)))"
  by (auto simp: no_file_on_path_def list_all_iff less_Suc_eq_le)

lemma no_file_on_path_butlast:
  assumes "no_file_on_path f p"
  shows "no_file_on_path f (butlast p)"
  unfolding no_file_on_path_iff
proof (intro allI impI)
  fix k assume "k \<le> length (butlast p)"
  then have "take k (butlast p) = take k p" and "k \<le> length p"
    by (simp_all add: butlast_conv_take)
  with assms show "\<not> is_file (lookup f (take k (butlast p)))"
    by (simp add: no_file_on_path_iff)
qed

lemma no_file_on_path_self:
  "no_file_on_path f p \<Longrightarrow> \<not> is_file (lookup f p)"
  by (auto simp: no_file_on_path_iff dest: spec [of _ "length p"])

lemma butlast_self: "butlast p = p \<longleftrightarrow> p = []"
  by (cases p rule: rev_cases) auto

lemma mkdir_parents_succeeds:
  "no_file_on_path (fs s) p \<Longrightarrow> \<exists>s'. mkdir p True True s = (Inr (), s')"
proof (induction "length p" arbitrary: p s)
  case 0
  then have "lookup (fs s) p = Some Dir" by (simp add: lookup_def)
  from mkdir_existing [OF this] show ?case by blast
next
  case (Suc n)
  then have ne: "p \<noteq> []" and len: "n = length (butlast p)" by auto
  obtain r1 s1 where o: "os_mkdir p s = (r1, s1)" by (cases "os_mkdir p s") auto
  note oc = os_mkdir_cases(2) [OF o]
  show ?case
  proof (cases r1)
    case (Inr u)
    with o show ?thesis by (simp add: mkdir.simps [of p])
  next
    case (Inl e)
    with oc have same: "fs s1 = fs s" by auto
    show ?thesis
    proof (cases "exc_class_of e = FileNotFoundError")
      case True
      have "no_file_on_path (fs s1) (butlast p)"
        using no_file_on_path_butlast [OF Suc.prems] same by simp
      from Suc.hyps(1) [OF len this] obtain s2 where
        m: "mkdir (butlast p) True True s1 = (Inr (), s2)" by blast
      have d2: "lookup (fs s2) (butlast p) = Some Dir"
        using mkdir_ok_is_dir [OF m] .
      have "\<not> is_file (lookup (fs s) p)"
        using no_file_on_path_self [OF Suc.prems] .
      with mkdir_adds_dirs [OF m, of p] same ne have "\<not> is_file (lookup (fs s2) p)"
        by (auto simp: lookup_def is_file_def)
      from mkdir_below_dir [OF d2 this] obtain s' where
        "mkdir p False True s2 = (Inr (), s')" by blast
      with o Inl True m ne show ?thesis
        by (simp add: mkdir.simps [of p True] butlast_self)
    next
      case False
      with oc Inl have "lookup (fs s) p \<noteq> None \<or> lookup (fs s) (butlast p) \<noteq> None"
        by auto
      then show ?thesis
      proof
        assume "lookup (fs s) p \<noteq> None"
        with no_file_on_path_self [OF Suc.prems] have "lookup (fs s) p = Some Dir"
          by (cases "lookup (fs s) p") (auto simp: is_file_def split: node.splits)
        from mkdir_existing [OF this] show ?thesis by blast
      next
        assume "lookup (fs s) (butlast p) \<noteq> None"
        moreover have "\<not> is_file (lookup (fs s) (butlast p))"
          using no_file_on_path_self [OF no_file_on_path_butlast [OF Suc.prems]] .
        ultimately have "lookup (fs s) (butlast p) = Some Dir"
          by (cases "lookup (fs s) (butlast p)") (auto simp: is_file_def split: node.splits)
        from mkdir_below_dir [OF this no_file_on_path_self [OF Suc.prems]]
        show ?thesis by blast
      qed
    qed
  qed
qed

lemma setup_directories_ok:
  assumes "setup_directories file s = (Inr u, s')"
  shows "fs s' (ECG_DIR file) = Some Dir" and "fs s' (XRAY_TEMP_DIR file) = Some Dir"
    and "\<And>q. fs s' q = fs s q \<or> (fs s q = None \<and> fs s' q = Some Dir)"
proof -
  obtain r1 s1 where m1: "mkdir (ECG_DIR file) True True s = (r1, s1)"
    by (cases "mkdir (ECG_DIR file) True True s") auto
  with assms obtain u1 where r1: "r1 = Inr u1"
    by (cases r1) (auto simp: setup_directories_def)
  with assms m1 obtain u2 where m2: "mkdir (XRAY_TEMP_DIR file) True True s1 = (Inr u2, s')"
    by (auto simp: setup_directories_def split: prod.splits sum.splits)
  have e: "lookup (fs s1) (ECG_DIR file) = Some Dir"
    using mkdir_ok_is_dir m1 r1 by blast
  have x: "lookup (fs s') (XRAY_TEMP_DIR file) = Some Dir"
    using mkdir_ok_is_dir [OF m2] .
  from x show "fs s' (XRAY_TEMP_DIR file) = Some Dir"
    by (simp add: lookup_def dir_defs)
  from e mkdir_adds_dirs [OF m2, of "ECG_DIR file"] show "fs s' (ECG_DIR file) = Some Dir"
    by (auto simp: lookup_def dir_defs)
  fix q
  from mkdir_adds_dirs [OF m1, of q] mkdir_adds_dirs [OF m2, of q]
  show "fs s' q = fs s q \<or> (fs s q = None \<and> fs s' q = Some Dir)"
    by auto
qed

lemma setup_directories_existing:
  assumes "fs s (ECG_DIR file) = Some Dir" and "fs s (XRAY_TEMP_DIR file) = Some Dir"
  shows "\<exists>s'. setup_directories file s = (Inr (), s') \<and> fs s' = fs s"
proof -
  have "lookup (fs s) (ECG_DIR file) = Some Dir"
    using assms(1) by (simp add: lookup_def dir_defs)
  from mkdir_existing [OF this] obtain s1 where
    m1: "mkdir (ECG_DIR file) True True s = (Inr (), s1)" and f1: "fs s1 = fs s"
    by blast
  have "lookup (fs s1) (XRAY_TEMP_DIR file) = Some Dir"
    using assms(2) f1 by (simp add: lookup_def dir_defs)
  from mkdir_existing [OF this] obtain s2 where
    m2: "mkdir (XRAY_TEMP_DIR file) True True s1 = (Inr (), s2)" and f2: "fs s2 = fs s1"
    by blast
  from m1 m2 f1 f2 show ?thesis
    by (simp add: setup_directories_def)
qed

lemma no_file_on_path_mono:
  assumes "no_file_on_path f p" and "\<And>q. f' q = f q \<or> (f q = None \<and> f' q = Some Dir)"
  shows "no_file_on_path f' p"
  unfolding no_file_on_path_iff
proof (intro allI impI)
  fix k assume "k \<le> length p"
  with assms(1) have "\<not> is_file (lookup f (take k p))"
    by (simp add: no_file_on_path_iff)
  with assms(2) [of "take k p"] show "\<not> is_file (lookup f' (take k p))"
    by (auto simp: lookup_def is_file_def split: if_splits)
qed

lemma setup_directories_succeeds:
  assumes "no_file_on_path (fs s) (ECG_DIR file)" and "no_file_on_path (fs s) (XRAY_TEMP_DIR file)"
  shows "\<exists>s'. setup_directories file s = (Inr (), s')"
proof -
  from mkdir_parents_succeeds [OF assms(1)] obtain s1 where
    m1: "mkdir (ECG_DIR file) True True s = (Inr (), s1)" by blast
  have "no_file_on_path (fs s1) (XRAY_TEMP_DIR file)"
    using no_file_on_path_mono [OF assms(2)] mkdir_adds_dirs [OF m1] by blast
  from mkdir_parents_succeeds [OF this] obtain s2 where
    "mkdir (XRAY_TEMP_DIR file) True True s1 = (Inr (), s2)" by blast
  with m1 show ?thesis
    by (simp add: setup_directories_def)
qed

text \<open>
  C8, as stated, fails on the place: the module never looks at the working directory.
  With the module at \<^verbatim>\<open>/srv/backend/main.py\<close> and the service started from
  \<^verbatim>\<open>/srv\<close>, the directories are made below \<^verbatim>\<open>/srv/backend\<close>, and
  \<^verbatim>\<open>/srv/uploads/ecg\<close> and \<^verbatim>\<open>/srv/uploads/xray_temp\<close> do not exist afterwards.
\<close>

theorem directories_in_cwd_counterexample:
  "setup_directories demo_module_file demo_state = (Inr (), demo_ready_state)
   \<and> fs demo_ready_state (spec_archival_dir demo_cwd) = None
   \<and> fs demo_ready_state (spec_staging_dir demo_cwd) = None
   \<and> fs demo_ready_state [''srv'', ''backend'', ''uploads'', ''ecg''] = Some Dir
   \<and> fs demo_ready_state [''srv'', ''backend'', ''uploads'', ''xray_temp''] = Some Dir"
  by (simp add: demo_setup)
     (simp add: demo_ready_state_eq spec_archival_dir_def spec_staging_dir_def demo_cwd_def
        demo_fs_def)

text \<open>
  C8, amended. The loop at the top of the module makes \<^verbatim>\<open>uploads/ecg\<close> and
  \<^verbatim>\<open>uploads/xray_temp\<close> below the directory that holds \<^verbatim>\<open>main.py\<close>. When it
  does not raise, both are directories afterwards, every other entry of the file system
  is as before or a new directory, and running it again changes nothing and does not
  raise. When both directories exist already, it does not raise and the file system
  stays as it is. When no path from the root to either directory is a regular file, it
  does not raise, whichever parents are missing.
\<close>

theorem directories_made_below_module_dir:
  "(\<forall>u s'. setup_directories file s = (Inr u, s') \<longrightarrow>
        fs s' (butlast file @ [''uploads'', ''ecg'']) = Some Dir
      \<and> fs s' (butlast file @ [''uploads'', ''xray_temp'']) = Some Dir
      \<and> (\<forall>q. fs s' q = fs s q \<or> (fs s q = None \<and> fs s' q = Some Dir))
      \<and> (\<exists>s''. setup_directories file s' = (Inr (), s'') \<and> fs s'' = fs s'))
   \<and> (fs s (butlast file @ [''uploads'', ''ecg'']) = Some Dir
        \<and> fs s (butlast file @ [''uploads'', ''xray_temp'']) = Some Dir \<longrightarrow>
        (\<exists>s'. setup_directories file s = (Inr (), s') \<and> fs s' = fs s))
   \<and> (no_file_on_path (fs s) (butlast file @ [''uploads'', ''ecg''])
        \<and> no_file_on_path (fs s) (butlast file @ [''uploads'', ''xray_temp'']) \<longrightarrow>
        (\<exists>s'. setup_directories file s = (Inr (), s')))"
proof (intro conjI allI impI)
  fix u s' assume a: "setup_directories file s = (Inr u, s')"
  note ok = setup_directories_ok [OF a]
  from ok(1) show e: "fs s' (butlast file @ [''uploads'', ''ecg'']) = Some Dir"
    by (simp add: dir_defs)
  from ok(2) show x: "fs s' (butlast file @ [''uploads'', ''xray_temp'']) = Some Dir"
    by (simp add: dir_defs)
  from ok(3) show "\<And>q. fs s' q = fs s q \<or> (fs s q = None \<and> fs s' q = Some Dir)" .
  from setup_directories_existing [of s' "file"] ok(1) ok(2)
  show "\<exists>s''. setup_directories file s' = (Inr (), s'') \<and> fs s'' = fs s'"
    by simp
next
  assume "fs s (butlast file @ [''uploads'', ''ecg'']) = Some Dir
    \<and> fs s (butlast file @ [''uploads'', ''xray_temp'']) = Some Dir"
  then show "\<exists>s'. setup_directories file s = (Inr (), s') \<and> fs s' = fs s"
    using setup_directories_existing [of s "file"] by (simp add: dir_defs)
next
  assume "no_file_on_path (fs s) (butlast file @ [''uploads'', ''ecg''])
    \<and> no_file_on_path (fs s) (butlast file @ [''uploads'', ''xray_temp''])"
  then show "\<exists>s'. setup_directories file s = (Inr (), s')"
    using setup_directories_succeeds [of s "file"] by (simp add: dir_defs)
qed

theorem directories_made_below_module_dir_witness:
  "setup_directories demo_module_file demo_state = (Inr (), demo_ready_state)
   \<and> no_file_on_path (fs demo_state) (butlast demo_module_file @ [''uploads'', ''ecg''])
   \<and> no_file_on_path (fs demo_state) (butlast demo_module_file @ [''uploads'', ''xray_temp''])
   \<and> fs demo_state (butlast demo_module_file @ [''uploads'']) = None
   \<and> fs demo_ready_state (butlast demo_module_file @ [''uploads'', ''ecg'']) = Some Dir
   \<and> fs demo_ready_state (butlast demo_module_file @ [''uploads'', ''xray_temp'']) = Some Dir
   \<and> (\<exists>s''. setup_directories demo_module_file demo_ready_state = (Inr (), s'')
          \<and> fs s'' = fs demo_ready_state)"
proof -
  have h1: "setup_directories demo_module_file demo_state = (Inr (), demo_ready_state)"
    by (simp add: demo_setup) (simp add: demo_ready_state_eq)
  have h2: "no_file_on_path (fs demo_state) (butlast demo_module_file @ [''uploads'', ''ecg''])"
    and h3: "no_file_on_path (fs demo_state)
      (butlast demo_module_file @ [''uploads'', ''xray_temp''])"
    and h4: "fs demo_state (butlast demo_module_file @ [''uploads'']) = None"
    by (simp_all add: no_file_on_path_def is_file_def lookup_def demo_state_def demo_fs_def
        demo_module_file_def upt_rec)
  note t = directories_made_below_module_dir [of demo_module_file demo_state]
  from t h1 have a: "fs demo_ready_state (butlast demo_module_file @ [''uploads'', ''ecg''])
        = Some Dir
      \<and> fs demo_ready_state (butlast demo_module_file @ [''uploads'', ''xray_temp''])
        = Some Dir"
    by blast
  from t h2 h3 have "\<exists>s'. setup_directories demo_module_file demo_state = (Inr (), s')"
    by blast
  from directories_made_below_module_dir [of demo_module_file demo_ready_state] a
  have "\<exists>s''. setup_directories demo_module_file demo_ready_state = (Inr (), s'')
          \<and> fs s'' = fs demo_ready_state"
    by blast
  with h1 h2 h3 h4 a show ?thesis by blast
qed

end
